theory Spec2Isabelle
  imports Complex_Main
begin

section \<open>Conventions of the embedding\<close>

text \<open>
  The repository is a Python program over pandas data frames: \<^verbatim>\<open>fn_2.py\<close> holds the
  signal engine (\<^verbatim>\<open>SingleStockMomentumVolBreakoutStrategy\<close>) and \<^verbatim>\<open>testback.py\<close>
  the back-test ledger (\<^verbatim>\<open>BacktestEngine\<close>).

  Python floats are idealised as real numbers: rounding is not modelled, so every
  statement below is about exact arithmetic. Dates (pandas timestamps) are integers, of
  which only the order is used. Record fields carry a prefix (\<open>sig_\<close>, \<open>pos_\<close>, \<open>tr_\<close>,
  \<open>pv_\<close>, \<open>bar_\<close>) in front of the key the source uses, since two records cannot share a
  field name. The Chinese reason strings of the source are the constructors of
  \<open>reason\<close>.
\<close>

datatype action = BUY | SELL | ADD | HOLD

datatype reason =
    NoReason               \<comment> \<open>the empty string\<close>
  | TrendStartBreakout     \<comment> \<open>BUY: trend start, above fast MA, volatility filter, good risk-reward\<close>
  | StopLossHit            \<comment> \<open>SELL: dynamic stop-loss touched\<close>
  | SupportBroken          \<comment> \<open>SELL: support (Donchian low) broken\<close>
  | TakeProfitReached      \<comment> \<open>SELL: take-profit target reached\<close>
  | TrendReversal          \<comment> \<open>SELL: trend reversal\<close>
  | TrendVolExpansion      \<comment> \<open>ADD: trend strengthening and volatility expansion\<close>

datatype error = ZeroDivisionError | ValueError

section \<open>The back-test ledger (\<^verbatim>\<open>testback.py\<close>, \<^verbatim>\<open>BacktestEngine\<close>)\<close>

text \<open>One entry of the list \<^verbatim>\<open>signals\<close> that \<^verbatim>\<open>backtest_strategy\<close> walks over.\<close>

record signal =
  sig_date :: int
  sig_action :: action
  sig_price :: real
  sig_reason :: reason
  sig_strength :: real

text \<open>A value of the dictionary \<^verbatim>\<open>self.positions\<close>: one open lot.\<close>

record position =
  pos_shares :: int
  pos_price :: real
  pos_date :: int

text \<open>An entry of \<^verbatim>\<open>self.trades\<close>. A BUY entry has no key \<^verbatim>\<open>profit\<close>.\<close>

record trade =
  tr_date :: int
  tr_action :: action
  tr_price :: real
  tr_shares :: int
  tr_profit :: "real option"
  tr_reason :: reason
  tr_cash_after :: real

text \<open>An entry of \<^verbatim>\<open>self.portfolio_value\<close>.\<close>

record snapshot =
  pv_date :: int
  pv_value :: real
  pv_cash :: real
  pv_positions :: nat

text \<open>
  The mutable attributes of the engine. \<^verbatim>\<open>positions\<close> is a Python dictionary keyed by the
  entry date; it keeps insertion order, which decides the order of the SELL trades, so
  it is an association list with the dictionary's update and delete.
\<close>

record ledger =
  initial_cash :: real
  cash :: real
  positions :: "(int \<times> position) list"
  trades :: "trade list"
  portfolio_value :: "snapshot list"

fun dict_set :: "('k \<times> 'v) list \<Rightarrow> 'k \<Rightarrow> 'v \<Rightarrow> ('k \<times> 'v) list" where
  "dict_set [] k v = [(k, v)]"
| "dict_set ((k', v') # kvs) k v =
     (if k' = k then (k, v) # kvs else (k', v') # dict_set kvs k v)"

fun dict_del :: "('k \<times> 'v) list \<Rightarrow> 'k \<Rightarrow> ('k \<times> 'v) list" where
  "dict_del [] k = []"
| "dict_del ((k', v') # kvs) k = (if k' = k then kvs else (k', v') # dict_del kvs k)"

text \<open>Python's \<^verbatim>\<open>int(x)\<close> on a float truncates towards zero.\<close>

definition py_int :: "real \<Rightarrow> int" where
  "py_int x = (if 0 \<le> x then \<lfloor>x\<rfloor> else \<lceil>x\<rceil>)"

text \<open>The state after \<^verbatim>\<open>backtest_strategy\<close> has reset it (lines 121 to 124).\<close>

definition reset_ledger :: "real \<Rightarrow> ledger" where
  "reset_ledger c =
     \<lparr>initial_cash = c, cash = c, positions = [], trades = [], portfolio_value = []\<rparr>"

text \<open>
  The BUY branch (lines 144 to 164). The prices are Python floats, so the division
  raises \<^verbatim>\<open>ZeroDivisionError\<close> at price zero.
\<close>

definition execute_buy :: "ledger \<Rightarrow> signal \<Rightarrow> error + ledger" where
  "execute_buy L s =
     (let position_size = min (cash L * 0.1 * sig_strength s) (cash L) in
      if sig_price s = 0 then Inl ZeroDivisionError
      else
        let shares = py_int (position_size / sig_price s) in
        if shares > 0 then
          let cash' = cash L - real_of_int shares * sig_price s in
          Inr (L\<lparr>positions :=
                    dict_set (positions L) (sig_date s)
                      \<lparr>pos_shares = shares, pos_price = sig_price s, pos_date = sig_date s\<rparr>,
                  cash := cash',
                  trades := trades L @
                    [\<lparr>tr_date = sig_date s, tr_action = BUY, tr_price = sig_price s,
                      tr_shares = shares, tr_profit = None, tr_reason = sig_reason s,
                      tr_cash_after = cash'\<rparr>]\<rparr>)
        else Inr L)"

text \<open>
  The SELL branch (lines 168 to 183): the loop runs over a copy of the items and closes
  every lot whose entry date is not after the signal's.
\<close>

fun sell_positions :: "signal \<Rightarrow> (int \<times> position) list \<Rightarrow> ledger \<Rightarrow> ledger" where
  "sell_positions s [] L = L"
| "sell_positions s ((d, p) # items) L =
     sell_positions s items
       (if d \<le> sig_date s then
          let profit = (sig_price s - pos_price p) * real_of_int (pos_shares p);
              cash' = cash L + real_of_int (pos_shares p) * sig_price s
          in L\<lparr>cash := cash',
               trades := trades L @
                 [\<lparr>tr_date = sig_date s, tr_action = SELL, tr_price = sig_price s,
                   tr_shares = pos_shares p, tr_profit = Some profit,
                   tr_reason = sig_reason s, tr_cash_after = cash'\<rparr>],
               positions := dict_del (positions L) d\<rparr>
        else L)"

text \<open>The mark-to-market value of lines 186 to 189.\<close>

definition current_value :: "ledger \<Rightarrow> signal \<Rightarrow> real" where
  "current_value L s =
     cash L + sum_list (map (\<lambda>(d, p). real_of_int (pos_shares p) * sig_price s)
                          (filter (\<lambda>(d, p). d \<le> sig_date s) (positions L)))"

definition record_value :: "ledger \<Rightarrow> signal \<Rightarrow> ledger" where
  "record_value L s =
     L\<lparr>portfolio_value := portfolio_value L @
         [\<lparr>pv_date = sig_date s, pv_value = current_value L s, pv_cash = cash L,
           pv_positions = length (positions L)\<rparr>]\<rparr>"

text \<open>One iteration of the loop \<^verbatim>\<open>for signal in signals\<close> (lines 143 to 196).\<close>

definition process_signal :: "ledger \<Rightarrow> signal \<Rightarrow> error + ledger" where
  "process_signal L s =
     (if sig_action s = BUY \<and> cash L > 0 then
        (case execute_buy L s of Inl e \<Rightarrow> Inl e | Inr L' \<Rightarrow> Inr (record_value L' s))
      else if sig_action s = SELL \<and> positions L \<noteq> [] then
        Inr (record_value (sell_positions s (positions L) L) s)
      else Inr (record_value L s))"

fun process_signals :: "ledger \<Rightarrow> signal list \<Rightarrow> error + ledger" where
  "process_signals L [] = Inr L"
| "process_signals L (s # ss) =
     (case process_signal L s of Inl e \<Rightarrow> Inl e | Inr L' \<Rightarrow> process_signals L' ss)"

section \<open>Float values of a data frame\<close>

text \<open>
  A cell of a pandas column of floats is a finite number, an infinity or NaN. Vectorised
  division does not raise: a finite number over zero is an infinity or, for zero over
  zero, NaN. Every comparison with NaN is false. The sign of a zero is not modelled.
\<close>

datatype fval = Fin real | PInf | NInf | NaN

fun fneg :: "fval \<Rightarrow> fval" where
  "fneg (Fin a) = Fin (- a)"
| "fneg PInf = NInf"
| "fneg NInf = PInf"
| "fneg NaN = NaN"

fun fadd :: "fval \<Rightarrow> fval \<Rightarrow> fval" where
  "fadd (Fin a) (Fin b) = Fin (a + b)"
| "fadd NaN _ = NaN"
| "fadd _ NaN = NaN"
| "fadd PInf NInf = NaN"
| "fadd NInf PInf = NaN"
| "fadd PInf _ = PInf"
| "fadd NInf _ = NInf"
| "fadd _ PInf = PInf"
| "fadd _ NInf = NInf"

definition fsub :: "fval \<Rightarrow> fval \<Rightarrow> fval" where
  "fsub x y = fadd x (fneg y)"

text \<open>The sign of a value: 1, 0 or -1; \<open>None\<close> for NaN.\<close>

fun fsgn :: "fval \<Rightarrow> int option" where
  "fsgn (Fin a) = Some (if 0 < a then 1 else if a < 0 then - 1 else 0)"
| "fsgn PInf = Some 1"
| "fsgn NInf = Some (- 1)"
| "fsgn NaN = None"

definition inf_of_sign :: "int \<Rightarrow> fval" where
  "inf_of_sign k = (if 0 < k then PInf else if k < 0 then NInf else NaN)"

fun fmul :: "fval \<Rightarrow> fval \<Rightarrow> fval" where
  "fmul (Fin a) (Fin b) = Fin (a * b)"
| "fmul x y =
     (case (fsgn x, fsgn y) of
        (Some j, Some k) \<Rightarrow> inf_of_sign (j * k)
      | _ \<Rightarrow> NaN)"

fun fdiv :: "fval \<Rightarrow> fval \<Rightarrow> fval" where
  "fdiv (Fin a) (Fin b) =
     (if b \<noteq> 0 then Fin (a / b)
      else if 0 < a then PInf else if a < 0 then NInf else NaN)"
| "fdiv NaN _ = NaN"
| "fdiv _ NaN = NaN"
| "fdiv (Fin a) _ = Fin 0"
| "fdiv PInf (Fin b) = (if 0 \<le> b then PInf else NInf)"
| "fdiv NInf (Fin b) = (if 0 \<le> b then NInf else PInf)"
| "fdiv _ _ = NaN"

fun fabs :: "fval \<Rightarrow> fval" where
  "fabs (Fin a) = Fin \<bar>a\<bar>"
| "fabs NaN = NaN"
| "fabs _ = PInf"

fun flt :: "fval \<Rightarrow> fval \<Rightarrow> bool" where
  "flt (Fin a) (Fin b) = (a < b)"
| "flt NaN _ = False"
| "flt _ NaN = False"
| "flt _ NInf = False"
| "flt PInf _ = False"
| "flt _ _ = True"

fun fle :: "fval \<Rightarrow> fval \<Rightarrow> bool" where
  "fle (Fin a) (Fin b) = (a \<le> b)"
| "fle NaN _ = False"
| "fle _ NaN = False"
| "fle NInf _ = True"
| "fle _ PInf = True"
| "fle _ _ = False"

text \<open>
  Python's built-in \<^verbatim>\<open>min(a, b)\<close> and \<^verbatim>\<open>max(a, b)\<close> keep the first argument unless the
  second compares strictly below (above) it; with NaN as second argument they return the
  first.
\<close>

definition py_min :: "fval \<Rightarrow> fval \<Rightarrow> fval" where
  "py_min a b = (if flt b a then b else a)"

definition py_max :: "fval \<Rightarrow> fval \<Rightarrow> fval" where
  "py_max a b = (if flt a b then b else a)"

section \<open>The pandas operations the strategy uses\<close>

text \<open>One row of the input frame (a daily bar). Its numbers are finite.\<close>

record bar =
  bar_date :: int
  bar_open :: real
  bar_high :: real
  bar_low :: real
  bar_close :: real
  bar_volume :: real

text \<open>
  \<^verbatim>\<open>Series.ewm(span=window, adjust=False).mean()\<close> on a column without NaN: the first
  value seeds the recursion \<open>y\<^sub>t = (1 - \<alpha>) y\<^sub>t\<^sub>-\<^sub>1 + \<alpha> x\<^sub>t\<close> with \<open>\<alpha> = 2 / (w + 1)\<close> for the span \<open>w\<close>.
  pandas raises \<^verbatim>\<open>ValueError\<close> for a span below 1.
\<close>

fun ewm_from :: "real \<Rightarrow> real \<Rightarrow> real list \<Rightarrow> real list" where
  "ewm_from \<alpha> y [] = []"
| "ewm_from \<alpha> y (x # xs) = ((1 - \<alpha>) * y + \<alpha> * x) # ewm_from \<alpha> ((1 - \<alpha>) * y + \<alpha> * x) xs"

definition ewm_mean :: "nat \<Rightarrow> real list \<Rightarrow> error + real list" where
  "ewm_mean w xs =
     (if w < 1 then Inl ValueError
      else Inr (case xs of [] \<Rightarrow> [] | x # xs' \<Rightarrow> x # ewm_from (2 / (real w + 1)) x xs'))"

text \<open>
  \<^verbatim>\<open>Series.rolling(w)\<close>: the window of row \<open>i\<close> holds the rows \<open>i + 1 - w\<close> to \<open>i\<close>. With
  the default \<^verbatim>\<open>min_periods = w\<close> the result is NaN while fewer than \<open>w\<close> rows are there (and
  on every row for \<open>w = 0\<close>).
\<close>

definition window_at :: "nat \<Rightarrow> 'a list \<Rightarrow> nat \<Rightarrow> 'a list" where
  "window_at w xs i = drop (Suc i - w) (take (Suc i) xs)"

definition rolling :: "nat \<Rightarrow> ('a list \<Rightarrow> fval) \<Rightarrow> 'a list \<Rightarrow> fval list" where
  "rolling w f xs =
     map (\<lambda>i. if w = 0 \<or> Suc i < w then NaN else f (window_at w xs i)) [0..<length xs]"

text \<open>The aggregates; each is applied to a full window, which is not empty.\<close>

definition window_mean :: "real list \<Rightarrow> fval" where
  "window_mean win = Fin (sum_list win / real (length win))"

fun list_max :: "real list \<Rightarrow> real" where
  "list_max [] = 0"
| "list_max [x] = x"
| "list_max (x # y # ys) = max x (list_max (y # ys))"

fun list_min :: "real list \<Rightarrow> real" where
  "list_min [] = 0"
| "list_min [x] = x"
| "list_min (x # y # ys) = min x (list_min (y # ys))"

definition window_max :: "real list \<Rightarrow> fval" where
  "window_max win = Fin (list_max win)"

definition window_min :: "real list \<Rightarrow> fval" where
  "window_min win = Fin (list_min win)"

text \<open>
  The rolling median runs over a computed column. pandas replaces infinities by NaN before
  a rolling aggregate, and a window with a NaN has fewer than \<open>w\<close> observations, so the
  median is a number only when the whole window is finite.
\<close>

fun fin_values :: "fval list \<Rightarrow> real list option" where
  "fin_values [] = Some []"
| "fin_values (Fin a # vs) = map_option ((#) a) (fin_values vs)"
| "fin_values (_ # vs) = None"

definition median :: "real list \<Rightarrow> real" where
  "median xs =
     (let s = sort xs; n = length s in
      if n mod 2 = 1 then s ! (n div 2) else (s ! (n div 2 - 1) + s ! (n div 2)) / 2)"

definition window_median :: "fval list \<Rightarrow> fval" where
  "window_median win = (case fin_values win of None \<Rightarrow> NaN | Some xs \<Rightarrow> Fin (median xs))"

section \<open>The signal engine (\<^verbatim>\<open>fn_2.py\<close>, \<^verbatim>\<open>SingleStockMomentumVolBreakoutStrategy\<close>)\<close>

text \<open>
  The attributes of the strategy that the modelled methods read. The fee, slippage,
  pyramiding, minimum-hold and cool-down attributes are stored by the constructor and
  read nowhere. Windows are natural numbers: pandas rejects a negative one.
\<close>

record config =
  risk_fraction_per_trade :: real
  fast_ma_window :: nat
  slow_ma_window :: nat
  entry_breakout_window :: nat
  atr_window :: nat
  atr_multiple_stop :: real
  vol_min_pct :: real
  vol_max_pct :: real
  vol_lookback_for_filter :: nat
  vol_expand_multiple_for_add :: real
  exit_break_window :: nat
  take_profit_multiple :: real
  max_position_risk :: real
  trend_strength_threshold :: real

text \<open>The defaults of \<^verbatim>\<open>__init__\<close>.\<close>

definition default_config :: config where
  "default_config =
     \<lparr>risk_fraction_per_trade = 0.01, fast_ma_window = 20, slow_ma_window = 60,
      entry_breakout_window = 10, atr_window = 14, atr_multiple_stop = 3,
      vol_min_pct = 0.7, vol_max_pct = 2, vol_lookback_for_filter = 60,
      vol_expand_multiple_for_add = 1.1, exit_break_window = 10,
      take_profit_multiple = 2, max_position_risk = 0.05,
      trend_strength_threshold = 0.02\<rparr>"

subsection \<open>\<^verbatim>\<open>_compute_atr\<close>\<close>

text \<open>
  The true range is the row maximum of \<open>high - low\<close>, \<open>|high - prev_close|\<close> and
  \<open>|low - prev_close|\<close>. On the first row \<^verbatim>\<open>shift(1)\<close> leaves the previous close NaN and
  \<^verbatim>\<open>max(axis=1)\<close> skips the two NaN entries. The first argument is the previous close.
\<close>

fun true_range :: "real option \<Rightarrow> bar list \<Rightarrow> real list" where
  "true_range pc [] = []"
| "true_range None (b # bs) = (bar_high b - bar_low b) # true_range (Some (bar_close b)) bs"
| "true_range (Some c) (b # bs) =
     max (bar_high b - bar_low b) (max \<bar>bar_high b - c\<bar> \<bar>bar_low b - c\<bar>)
       # true_range (Some (bar_close b)) bs"

definition compute_atr :: "bar list \<Rightarrow> nat \<Rightarrow> error + real list" where
  "compute_atr df window = ewm_mean window (true_range None df)"

subsection \<open>The indicator columns, row by row\<close>

datatype volatility = Vol_low | Vol_normal | Vol_high

datatype trend = Neutral | Strong_uptrend | Strong_downtrend | Weak_uptrend | Weak_downtrend

datatype risk = LOW | MEDIUM | HIGH

text \<open>
  A row of the frame after the four \<^verbatim>\<open>calculate_..._indicators\<close> methods: the bar and the
  columns they add. The columns computed from the bar and the ATR alone are finite.
\<close>

record indicator_row = bar +
  atr :: real
  atr_pct :: fval
  atr_pct_median :: fval
  atr_filter_ratio :: fval
  volatility_regime :: volatility
  fast_ma :: fval
  slow_ma :: fval
  donchian_high :: fval
  donchian_low :: fval
  price_vs_fast_ma :: fval
  price_vs_slow_ma :: fval
  trend_strength :: fval
  trend_strength_pct :: fval
  trend_state :: trend
  breakout_strength :: fval
  dynamic_stop_loss :: real
  take_profit_price :: real
  risk_reward_ratio :: fval
  price_vs_stop_distance :: fval

text \<open>
  \<^verbatim>\<open>calculate_volume_indicators\<close>, lines 85 to 87: the later assignment wins where both
  masks hold.
\<close>

definition volatility_regime_of :: "config \<Rightarrow> fval \<Rightarrow> volatility" where
  "volatility_regime_of cfg ratio =
     (if flt (Fin (vol_max_pct cfg)) ratio then Vol_high
      else if flt ratio (Fin (vol_min_pct cfg)) then Vol_low
      else Vol_normal)"

text \<open>\<^verbatim>\<open>calculate_momentum_indicators\<close>, lines 118 to 122: four masked assignments in turn.\<close>

definition trend_state_of :: "config \<Rightarrow> fval \<Rightarrow> trend" where
  "trend_state_of cfg ts =
     (let thr = trend_strength_threshold cfg;
          s1 = (if flt (Fin thr) ts then Strong_uptrend else Neutral);
          s2 = (if flt ts (Fin (- thr)) then Strong_downtrend else s1);
          s3 = (if fle (Fin 0) ts \<and> fle ts (Fin thr) then Weak_uptrend else s2)
      in if flt ts (Fin 0) \<and> fle (Fin (- thr)) ts then Weak_downtrend else s3)"

text \<open>
  The row built from the bar \<open>b\<close>, its ATR \<open>a\<close> and the values of the rolling columns on
  that row; every other column is element-wise arithmetic on these.
\<close>

definition indicator_row_of ::
  "config \<Rightarrow> bar \<Rightarrow> real \<Rightarrow> fval \<Rightarrow> fval \<Rightarrow> fval \<Rightarrow> fval \<Rightarrow> fval \<Rightarrow> indicator_row" where
  "indicator_row_of cfg b a med fast slow dhigh dlow =
     (let c = bar_close b;
          pct = fdiv (Fin a) (Fin c);
          ratio = fdiv pct med;
          ts = fdiv (fsub fast slow) slow;
          stop = c - atr_multiple_stop cfg * a;
          tp = c + take_profit_multiple cfg * atr_multiple_stop cfg * a
      in \<lparr>bar_date = bar_date b, bar_open = bar_open b, bar_high = bar_high b,
          bar_low = bar_low b, bar_close = c, bar_volume = bar_volume b,
          atr = a,
          atr_pct = pct,
          atr_pct_median = med,
          atr_filter_ratio = ratio,
          volatility_regime = volatility_regime_of cfg ratio,
          fast_ma = fast,
          slow_ma = slow,
          donchian_high = dhigh,
          donchian_low = dlow,
          price_vs_fast_ma = fdiv (fsub (Fin c) fast) fast,
          price_vs_slow_ma = fdiv (fsub (Fin c) slow) slow,
          trend_strength = ts,
          trend_strength_pct = fmul ts (Fin 100),
          trend_state = trend_state_of cfg ts,
          breakout_strength = fdiv (fsub (Fin c) dhigh) dhigh,
          dynamic_stop_loss = stop,
          take_profit_price = tp,
          risk_reward_ratio = fdiv (Fin (tp - c)) (Fin (c - stop)),
          price_vs_stop_distance = fdiv (Fin (c - stop)) (Fin c)\<rparr>)"

text \<open>
  The frame after \<^verbatim>\<open>calculate_volume_indicators\<close>, \<^verbatim>\<open>calculate_technical_indicators\<close>,
  \<^verbatim>\<open>calculate_momentum_indicators\<close> and \<^verbatim>\<open>calculate_risk_indicators\<close>, as the first lines
  of \<^verbatim>\<open>generate_signals\<close> chain them. Every column has the length of the frame.
\<close>

definition calculate_indicators :: "config \<Rightarrow> bar list \<Rightarrow> error + indicator_row list" where
  "calculate_indicators cfg df =
     (case compute_atr df (atr_window cfg) of
        Inl e \<Rightarrow> Inl e
      | Inr atrs \<Rightarrow>
          let closes = map bar_close df;
              pcts = map2 (\<lambda>a c. fdiv (Fin a) (Fin c)) atrs closes;
              meds = rolling (vol_lookback_for_filter cfg) window_median pcts;
              fasts = rolling (fast_ma_window cfg) window_mean closes;
              slows = rolling (slow_ma_window cfg) window_mean closes;
              dhighs = rolling (entry_breakout_window cfg) window_max (map bar_high df);
              dlows = rolling (exit_break_window cfg) window_min (map bar_low df)
          in Inr (map (\<lambda>i. indicator_row_of cfg (df ! i) (atrs ! i) (meds ! i) (fasts ! i)
                              (slows ! i) (dhighs ! i) (dlows ! i))
                    [0..<length df]))"

subsection \<open>\<^verbatim>\<open>_calculate_position_size\<close> and \<^verbatim>\<open>_assess_risk_level\<close>\<close>

definition calculate_position_size :: "config \<Rightarrow> 'a indicator_row_scheme \<Rightarrow> fval" where
  "calculate_position_size cfg row =
     (let base_size = Fin (risk_fraction_per_trade cfg);
          trend_adjustment =
            py_min (Fin 1.5) (py_max (Fin 0.5) (fmul (fabs (trend_strength row)) (Fin 10)));
          vol_adjustment =
            (if volatility_regime row = Vol_low then Fin 0.8
             else if volatility_regime row = Vol_high then Fin 1.2
             else Fin 1.0);
          rr_adjustment =
            py_min (Fin 1.5) (py_max (Fin 0.5) (fdiv (risk_reward_ratio row) (Fin 2)));
          final_size = fmul (fmul (fmul base_size trend_adjustment) vol_adjustment) rr_adjustment
      in py_min final_size (Fin (max_position_risk cfg)))"

definition assess_risk_level :: "'a indicator_row_scheme \<Rightarrow> risk" where
  "assess_risk_level row =
     (let s1 = (if volatility_regime row = Vol_high then 2
                else if volatility_regime row = Vol_low then 0
                else 1);
          s2 = s1 + (if flt (trend_strength row) (Fin 0.01) then 2
                     else if flt (Fin 0.05) (trend_strength row) then 0
                     else 1);
          risk_score = s2 + (if flt (price_vs_stop_distance row) (Fin 0.05) then 2
                             else if flt (Fin 0.15) (price_vs_stop_distance row) then 0
                             else (1::nat))
      in if risk_score \<le> 2 then LOW else if risk_score \<le> 4 then MEDIUM else HIGH)"

subsection \<open>\<^verbatim>\<open>generate_signals\<close>\<close>

text \<open>A row of the frame that \<^verbatim>\<open>generate_signals\<close> returns: the signal columns added.\<close>

record signal_row = indicator_row +
  signal :: action
  signal_reason :: reason
  signal_strength :: fval
  risk_level :: risk
  position_size :: fval
  stop_loss :: real
  take_profit :: real

text \<open>The initial values of the signal columns (lines 152 to 158).\<close>

definition initial_signal_row :: "indicator_row \<Rightarrow> signal_row" where
  "initial_signal_row row =
     indicator_row.extend row
       (signal_row.fields HOLD NoReason (Fin 0) LOW (Fin 0) 0 0)"

text \<open>The conditions of the loop body (lines 175 to 184), each a local variable there.\<close>

definition ma_condition :: "'a indicator_row_scheme \<Rightarrow> bool" where
  "ma_condition row = flt (slow_ma row) (fast_ma row)"

definition trend_condition :: "'a indicator_row_scheme \<Rightarrow> bool" where
  "trend_condition row = flt (fast_ma row) (Fin (bar_close row))"

definition vol_condition :: "config \<Rightarrow> 'a indicator_row_scheme \<Rightarrow> bool" where
  "vol_condition cfg row =
     (fle (Fin (vol_min_pct cfg)) (atr_filter_ratio row) \<and>
      fle (atr_filter_ratio row) (Fin (vol_max_pct cfg)))"

definition risk_reward_ok :: "'a indicator_row_scheme \<Rightarrow> bool" where
  "risk_reward_ok row = flt (Fin 1.5) (risk_reward_ratio row)"

definition below_stop :: "'a indicator_row_scheme \<Rightarrow> bool" where
  "below_stop row = (bar_close row < dynamic_stop_loss row)"

definition break_low :: "'a indicator_row_scheme \<Rightarrow> bool" where
  "break_low row = flt (Fin (bar_close row)) (donchian_low row)"

definition above_take_profit :: "'a indicator_row_scheme \<Rightarrow> bool" where
  "above_take_profit row = (bar_close row > take_profit_price row)"

definition trend_reversal :: "config \<Rightarrow> 'a indicator_row_scheme \<Rightarrow> bool" where
  "trend_reversal cfg row = flt (trend_strength row) (Fin (- trend_strength_threshold cfg))"

text \<open>The condition of the last \<^verbatim>\<open>elif\<close> (lines 214 and 215).\<close>

definition add_condition :: "config \<Rightarrow> 'a indicator_row_scheme \<Rightarrow> bool" where
  "add_condition cfg row =
     (flt (Fin (trend_strength_threshold cfg * 1.5)) (trend_strength row) \<and>
      flt (Fin (vol_expand_multiple_for_add cfg)) (atr_filter_ratio row))"

text \<open>The body of the loop for a row past the look-back (lines 172 to 220).\<close>

definition signal_of_row :: "config \<Rightarrow> indicator_row \<Rightarrow> signal_row" where
  "signal_of_row cfg row =
     (if ma_condition row \<and> trend_condition row \<and> vol_condition cfg row \<and> risk_reward_ok row
      then
        (initial_signal_row row)
          \<lparr>signal := BUY,
           signal_reason := TrendStartBreakout,
           signal_strength := py_min (Fin 1.0) (fmul (trend_strength row) (Fin 10)),
           stop_loss := dynamic_stop_loss row,
           take_profit := take_profit_price row,
           position_size := calculate_position_size cfg row,
           risk_level := assess_risk_level row\<rparr>
      else if below_stop row \<or> break_low row \<or> above_take_profit row \<or> trend_reversal cfg row
      then
        (initial_signal_row row)
          \<lparr>signal := SELL,
           signal_reason :=
             (if below_stop row then StopLossHit
              else if break_low row then SupportBroken
              else if above_take_profit row then TakeProfitReached
              else TrendReversal),
           signal_strength := Fin 1.0\<rparr>
      else if add_condition cfg row
      then
        (initial_signal_row row)
          \<lparr>signal := ADD,
           signal_reason := TrendVolExpansion,
           signal_strength := Fin 0.8,
           position_size := fmul (calculate_position_size cfg row) (Fin 0.5)\<rparr>
      else initial_signal_row row)"

text \<open>
  The loop over \<^verbatim>\<open>range(len(df))\<close>: a row whose index is below
  \<^verbatim>\<open>max(slow_ma_window, vol_lookback_for_filter)\<close> is skipped and keeps the initial columns.
\<close>

definition generate_signals :: "config \<Rightarrow> bar list \<Rightarrow> error + signal_row list" where
  "generate_signals cfg df =
     (case calculate_indicators cfg df of
        Inl e \<Rightarrow> Inl e
      | Inr rows \<Rightarrow>
          Inr (map (\<lambda>i. if i < max (slow_ma_window cfg) (vol_lookback_for_filter cfg)
                         then initial_signal_row (rows ! i)
                         else signal_of_row cfg (rows ! i))
                 [0..<length rows]))"

section \<open>From the signal frame to the ledger (\<^verbatim>\<open>backtest_strategy\<close>)\<close>

text \<open>
  Lines 131 to 140: every row whose signal is not HOLD becomes an entry of \<^verbatim>\<open>signals\<close>,
  priced at the close, with the strength set to 1.0.
\<close>

definition signals_of :: "signal_row list \<Rightarrow> signal list" where
  "signals_of rows =
     map (\<lambda>row. \<lparr>sig_date = bar_date row, sig_action = signal row, sig_price = bar_close row,
                  sig_reason = signal_reason row, sig_strength = 1.0\<rparr>)
       (filter (\<lambda>row. signal row \<noteq> HOLD) rows)"

text \<open>
  The engine after the loop of \<^verbatim>\<open>backtest_strategy\<close>, run with the strategy of
  \<^verbatim>\<open>fn_2.py\<close> from the cash \<open>c\<close>.
\<close>

definition backtest_ledger :: "config \<Rightarrow> real \<Rightarrow> bar list \<Rightarrow> error + ledger" where
  "backtest_ledger cfg c df =
     (case generate_signals cfg df of
        Inl e \<Rightarrow> Inl e
      | Inr rows \<Rightarrow> process_signals (reset_ledger c) (signals_of rows))"

section \<open>\<^verbatim>\<open>calculate_performance\<close>\<close>

text \<open>
  The keys of the result that are modelled. \<^verbatim>\<open>annual_return\<close> and \<^verbatim>\<open>sharpe_ratio\<close> are left
  out: they are a float power (whose overflow is not modelled) and a standard deviation,
  and no other key reads them. The divisions are by Python numbers and raise at zero; the
  loop of the Sharpe ratio divides by every snapshot value but the last, which
  \<open>sharpe_check\<close> keeps.
\<close>

record performance =
  total_return :: real
  max_drawdown :: real
  win_rate :: real
  total_trades :: nat
  buy_trades :: nat
  sell_trades :: nat
  final_value :: real
  initial_value :: real

text \<open>Lines 227 to 235: the running peak and the largest drawdown so far.\<close>

fun drawdown_loop :: "real \<Rightarrow> real \<Rightarrow> snapshot list \<Rightarrow> error + real" where
  "drawdown_loop peak mdd [] = Inr mdd"
| "drawdown_loop peak mdd (pv # pvs) =
     (let peak' = (if pv_value pv > peak then pv_value pv else peak) in
      if peak' = 0 then Inl ZeroDivisionError
      else
        let drawdown = (peak' - pv_value pv) / peak' * 100 in
        drawdown_loop peak' (if drawdown > mdd then drawdown else mdd) pvs)"

text \<open>Lines 238 to 242. \<^verbatim>\<open>t.get('profit', 0)\<close> is 0 for an entry without the key.\<close>

definition win_rate_of :: "trade list \<Rightarrow> real" where
  "win_rate_of ts =
     (let sells = filter (\<lambda>t. tr_action t = SELL) ts;
          profitable_trades =
            filter (\<lambda>t. (case tr_profit t of None \<Rightarrow> 0 | Some p \<Rightarrow> p) > 0) sells
      in if sells \<noteq> [] then real (length profitable_trades) / real (length sells) * 100
         else 0)"

definition sharpe_check :: "snapshot list \<Rightarrow> error + unit" where
  "sharpe_check pvs =
     (if list_ex (\<lambda>pv. pv_value pv = 0) (butlast pvs) then Inl ZeroDivisionError else Inr ())"

text \<open>The method returns the empty dictionary (\<open>None\<close>) when no snapshot was recorded.\<close>

definition calculate_performance :: "ledger \<Rightarrow> error + performance option" where
  "calculate_performance L =
     (if portfolio_value L = [] then Inr None
      else if initial_cash L = 0 then Inl ZeroDivisionError
      else
        case drawdown_loop (initial_cash L) 0 (portfolio_value L) of
          Inl e \<Rightarrow> Inl e
        | Inr mdd \<Rightarrow>
            (case sharpe_check (portfolio_value L) of
               Inl e \<Rightarrow> Inl e
             | Inr _ \<Rightarrow>
                 Inr (Some
                   \<lparr>total_return =
                      (pv_value (last (portfolio_value L)) - initial_cash L) / initial_cash L * 100,
                    max_drawdown = mdd,
                    win_rate = win_rate_of (trades L),
                    total_trades = length (trades L),
                    buy_trades = length (filter (\<lambda>t. tr_action t = BUY) (trades L)),
                    sell_trades = length (filter (\<lambda>t. tr_action t = SELL) (trades L)),
                    final_value = pv_value (last (portfolio_value L)),
                    initial_value = initial_cash L\<rparr>)))"

text \<open>What \<^verbatim>\<open>backtest_strategy\<close> returns: the performance of the ledger it has built.\<close>

definition backtest_strategy :: "config \<Rightarrow> real \<Rightarrow> bar list \<Rightarrow> error + performance option" where
  "backtest_strategy cfg c df =
     (case backtest_ledger cfg c df of Inl e \<Rightarrow> Inl e | Inr L \<Rightarrow> calculate_performance L)"

section \<open>Invariants of the ledger\<close>

text \<open>Every open lot holds a positive number of shares.\<close>

definition lots_positive :: "(int \<times> position) list \<Rightarrow> bool" where
  "lots_positive ps = list_all (\<lambda>(d, p). 0 < pos_shares p) ps"

text \<open>
  The cash is not negative, now and in every snapshot and trade recorded so far, and
  the open lots are positive.
\<close>

definition cash_ok :: "ledger \<Rightarrow> bool" where
  "cash_ok L \<longleftrightarrow> 0 \<le> cash L \<and> lots_positive (positions L) \<and>
     list_all (\<lambda>pv. 0 \<le> pv_cash pv) (portfolio_value L) \<and>
     list_all (\<lambda>t. 0 \<le> tr_cash_after t) (trades L)"

text \<open>Every open lot was entered on day \<open>D\<close> or before.\<close>

definition entered_by :: "int \<Rightarrow> (int \<times> position) list \<Rightarrow> bool" where
  "entered_by D ps = list_all (\<lambda>(d, p). d \<le> D) ps"

section \<open>Concrete inputs\<close>

text \<open>The signal of the scenario: BUY at price 10.00 with strength 1.0.\<close>

definition buy_at_10 :: signal where
  "buy_at_10 = \<lparr>sig_date = 0, sig_action = BUY, sig_price = 10, sig_reason = TrendStartBreakout,
                sig_strength = 1\<rparr>"

definition add_at_10 :: signal where
  "add_at_10 = \<lparr>sig_date = 0, sig_action = ADD, sig_price = 10, sig_reason = TrendVolExpansion,
                sig_strength = 1\<rparr>"

definition buy_at_12 :: signal where
  "buy_at_12 = \<lparr>sig_date = 1, sig_action = BUY, sig_price = 12, sig_reason = TrendStartBreakout,
                sig_strength = 1\<rparr>"

definition sell_at_15 :: signal where
  "sell_at_15 = \<lparr>sig_date = 2, sig_action = SELL, sig_price = 15, sig_reason = TrendReversal,
                 sig_strength = 1\<rparr>"

text \<open>
  A strategy with short windows, so that a week of bars passes the look-back, and a week
  of bars: four rising days, a jump, and two falling days.
\<close>

definition small_config :: config where
  "small_config =
     \<lparr>risk_fraction_per_trade = 0.01, fast_ma_window = 2, slow_ma_window = 3,
      entry_breakout_window = 2, atr_window = 3, atr_multiple_stop = 3,
      vol_min_pct = 0.7, vol_max_pct = 2, vol_lookback_for_filter = 2,
      vol_expand_multiple_for_add = 1.1, exit_break_window = 2,
      take_profit_multiple = 2, max_position_risk = 0.05,
      trend_strength_threshold = 0.02\<rparr>"

definition seven_bars :: "bar list" where
  "seven_bars =
     [\<lparr>bar_date = 0, bar_open = 10, bar_high = 11, bar_low = 9, bar_close = 10,
       bar_volume = 100\<rparr>,
      \<lparr>bar_date = 1, bar_open = 10, bar_high = 12, bar_low = 10, bar_close = 12,
       bar_volume = 100\<rparr>,
      \<lparr>bar_date = 2, bar_open = 12, bar_high = 14, bar_low = 12, bar_close = 14,
       bar_volume = 100\<rparr>,
      \<lparr>bar_date = 3, bar_open = 14, bar_high = 17, bar_low = 14, bar_close = 17,
       bar_volume = 100\<rparr>,
      \<lparr>bar_date = 4, bar_open = 17, bar_high = 30, bar_low = 17, bar_close = 30,
       bar_volume = 100\<rparr>,
      \<lparr>bar_date = 5, bar_open = 30, bar_high = 30, bar_low = 20, bar_close = 20,
       bar_volume = 100\<rparr>,
      \<lparr>bar_date = 6, bar_open = 20, bar_high = 20, bar_low = 18, bar_close = 18,
       bar_volume = 100\<rparr>]"

text \<open>The ledger at the end of the back-test of that week from a cash of 1000.\<close>

definition week_ledger :: ledger where
  "week_ledger =
     \<lparr>initial_cash = 1000, cash = 969, positions = [],
      trades =
        [\<lparr>tr_date = 3, tr_action = BUY, tr_price = 17, tr_shares = 5, tr_profit = None,
          tr_reason = TrendStartBreakout, tr_cash_after = 915\<rparr>,
         \<lparr>tr_date = 4, tr_action = BUY, tr_price = 30, tr_shares = 3, tr_profit = None,
          tr_reason = TrendStartBreakout, tr_cash_after = 825\<rparr>,
         \<lparr>tr_date = 6, tr_action = SELL, tr_price = 18, tr_shares = 5, tr_profit = Some 5,
          tr_reason = TrendReversal, tr_cash_after = 915\<rparr>,
         \<lparr>tr_date = 6, tr_action = SELL, tr_price = 18, tr_shares = 3,
          tr_profit = Some (- 36), tr_reason = TrendReversal, tr_cash_after = 969\<rparr>],
      portfolio_value =
        [\<lparr>pv_date = 3, pv_value = 1000, pv_cash = 915, pv_positions = 1\<rparr>,
         \<lparr>pv_date = 4, pv_value = 1065, pv_cash = 825, pv_positions = 2\<rparr>,
         \<lparr>pv_date = 5, pv_value = 985, pv_cash = 825, pv_positions = 2\<rparr>,
         \<lparr>pv_date = 6, pv_value = 969, pv_cash = 969, pv_positions = 0\<rparr>]\<rparr>"

section \<open>Properties of the ledger\<close>

subsection \<open>Cash and lots\<close>


lemma set_dict_set: "set (dict_set kvs k v) \<subseteq> insert (k, v) (set kvs)"
  by (induction kvs) (auto split: if_splits)

lemma set_dict_del: "set (dict_del kvs k) \<subseteq> set kvs"
  by (induction kvs) (auto split: if_splits)

lemma py_int_le:
  assumes "0 < p" and "0 < py_int (x / p)"
  shows "real_of_int (py_int (x / p)) * p \<le> x"
proof -
  have nn: "0 \<le> x / p"
  proof (rule ccontr)
    assume "\<not> 0 \<le> x / p"
    then have "py_int (x / p) = \<lceil>x / p\<rceil>" and "x / p < 0" by (simp_all add: py_int_def)
    then have "py_int (x / p) \<le> 0" by (simp add: ceiling_le_zero)
    with assms(2) show False by simp
  qed
  then have "real_of_int (py_int (x / p)) \<le> x / p" by (simp add: py_int_def)
  with assms(1) show ?thesis by (simp add: pos_le_divide_eq)
qed

lemma lots_positive_subset: "lots_positive ps \<Longrightarrow> set qs \<subseteq> set ps \<Longrightarrow> lots_positive qs"
  by (auto simp: lots_positive_def list_all_iff)

lemma execute_buy_cash_ok:
  assumes "cash_ok L" and "0 < sig_price s"
  shows "\<exists>L'. execute_buy L s = Inr L' \<and> cash_ok L' \<and> cash L' \<le> cash L"
proof -
  define x where "x = min (cash L * 0.1 * sig_strength s) (cash L)"
  define n where "n = py_int (x / sig_price s)"
  show ?thesis
  proof (cases "0 < n")
    case False
    then show ?thesis using assms
      unfolding execute_buy_def Let_def x_def n_def by simp
  next
    case True
    then have "real_of_int n * sig_price s \<le> x"
      unfolding n_def using py_int_le [OF assms(2)] by simp
    moreover have "x \<le> cash L" by (simp add: x_def)
    ultimately have le: "real_of_int n * sig_price s \<le> cash L" by simp
    have pos: "0 \<le> real_of_int n * sig_price s" using True assms(2) by simp
    have lp: "lots_positive (dict_set (positions L) (sig_date s)
        \<lparr>pos_shares = n, pos_price = sig_price s, pos_date = sig_date s\<rparr>)"
      using assms(1) True set_dict_set [of "positions L" "sig_date s"]
      by (fastforce simp: cash_ok_def lots_positive_def list_all_iff)
    show ?thesis using assms True le pos lp
      unfolding execute_buy_def Let_def x_def [symmetric] n_def [symmetric]
      by (simp add: cash_ok_def)
  qed
qed

lemma sell_positions_cash_ok:
  assumes "cash_ok L" and "0 \<le> sig_price s" and "lots_positive items"
  shows "cash_ok (sell_positions s items L)"
  using assms
proof (induction items arbitrary: L)
  case Nil
  then show ?case by simp
next
  case (Cons a items)
  obtain d p where a: "a = (d, p)" by (cases a)
  from Cons.prems(3) a have p: "0 < pos_shares p" and rest: "lots_positive items"
    by (simp_all add: lots_positive_def)
  show ?case
  proof (cases "d \<le> sig_date s")
    case False
    then show ?thesis using Cons a rest by simp
  next
    case True
    let ?L = "L\<lparr>cash := cash L + real_of_int (pos_shares p) * sig_price s,
               trades := trades L @
                 [\<lparr>tr_date = sig_date s, tr_action = SELL, tr_price = sig_price s,
                   tr_shares = pos_shares p,
                   tr_profit = Some ((sig_price s - pos_price p) * real_of_int (pos_shares p)),
                   tr_reason = sig_reason s,
                   tr_cash_after = cash L + real_of_int (pos_shares p) * sig_price s\<rparr>],
               positions := dict_del (positions L) d\<rparr>"
    have "0 \<le> real_of_int (pos_shares p) * sig_price s" using p Cons.prems(2) by simp
    moreover have "lots_positive (dict_del (positions L) d)"
      using Cons.prems(1) set_dict_del [of "positions L" d]
      by (auto simp: cash_ok_def intro: lots_positive_subset)
    ultimately have "cash_ok ?L" using Cons.prems(1) by (simp add: cash_ok_def)
    from Cons.IH [OF this Cons.prems(2) rest] show ?thesis using True a by (simp add: Let_def)
  qed
qed

lemma record_value_cash_ok: "cash_ok L \<Longrightarrow> cash_ok (record_value L s)"
  by (simp add: cash_ok_def record_value_def)

lemma process_signal_cash_ok:
  assumes "cash_ok L" and "0 < sig_price s"
  shows "\<exists>L'. process_signal L s = Inr L' \<and> cash_ok L'"
proof -
  from execute_buy_cash_ok [OF assms] obtain B where B: "execute_buy L s = Inr B" "cash_ok B"
    by blast
  have "cash_ok (sell_positions s (positions L) L)"
    using sell_positions_cash_ok [of L s "positions L"] assms by (simp add: cash_ok_def)
  with B show ?thesis using assms(1)
    by (simp add: process_signal_def record_value_cash_ok)
qed

lemma sell_positions_portfolio_value [simp]:
  "portfolio_value (sell_positions s items L) = portfolio_value L"
  by (induction items arbitrary: L) (auto simp: Let_def)

lemma sell_positions_initial_cash [simp]:
  "initial_cash (sell_positions s items L) = initial_cash L"
  by (induction items arbitrary: L) (auto simp: Let_def)

lemma process_signal_snapshots:
  "process_signal L s = Inr L' \<Longrightarrow>
     \<exists>pv. portfolio_value L' = portfolio_value L @ [pv] \<and> pv_date pv = sig_date s"
  by (auto simp: process_signal_def record_value_def execute_buy_def Let_def
      split: if_splits sum.splits)

lemma process_signals_append:
  "process_signals L (xs @ ys) =
     (case process_signals L xs of Inl e \<Rightarrow> Inl e | Inr L' \<Rightarrow> process_signals L' ys)"
  by (induction xs arbitrary: L) (auto split: sum.splits)

lemma process_signals_snapshots:
  "process_signals L ss = Inr L' \<Longrightarrow>
     \<exists>pvs. portfolio_value L' = portfolio_value L @ pvs \<and> map pv_date pvs = map sig_date ss"
proof (induction ss arbitrary: L)
  case Nil
  then show ?case by simp
next
  case (Cons s ss)
  from Cons.prems obtain M where M: "process_signal L s = Inr M" "process_signals M ss = Inr L'"
    by (auto split: sum.splits)
  from process_signal_snapshots [OF M(1)] obtain pv
    where pv: "portfolio_value M = portfolio_value L @ [pv]" "pv_date pv = sig_date s" by blast
  from Cons.IH [OF M(2)] obtain pvs
    where pvs: "portfolio_value L' = portfolio_value M @ pvs" "map pv_date pvs = map sig_date ss"
    by blast
  show ?case
    by (rule exI [of _ "pv # pvs"]) (simp add: pv pvs)
qed

lemma process_signals_cash_ok:
  assumes "cash_ok L" and "\<forall>s\<in>set ss. 0 < sig_price s"
  shows "\<exists>L'. process_signals L ss = Inr L' \<and> cash_ok L'"
  using assms
proof (induction ss arbitrary: L)
  case Nil
  then show ?case by simp
next
  case (Cons s ss)
  from process_signal_cash_ok [of L s] Cons.prems
  obtain M where M: "process_signal L s = Inr M" "cash_ok M" by auto
  from Cons.IH [OF M(2)] Cons.prems(2) show ?case by (simp add: M(1))
qed

lemma entered_by_subset: "entered_by D ps \<Longrightarrow> set qs \<subseteq> set ps \<Longrightarrow> entered_by D qs"
  by (auto simp: entered_by_def list_all_iff)

lemma entered_by_mono: "entered_by D ps \<Longrightarrow> D \<le> E \<Longrightarrow> entered_by E ps"
  by (fastforce simp: entered_by_def list_all_iff)

lemma sell_positions_subset: "set (positions (sell_positions s items L)) \<subseteq> set (positions L)"
proof (induction items arbitrary: L)
  case Nil
  then show ?case by simp
next
  case (Cons a items)
  obtain d p where a: "a = (d, p)" by (cases a)
  show ?case using Cons.IH [of L] Cons.IH [of "L\<lparr>cash := cash L + real_of_int (pos_shares p) * sig_price s,
               trades := trades L @
                 [\<lparr>tr_date = sig_date s, tr_action = SELL, tr_price = sig_price s,
                   tr_shares = pos_shares p,
                   tr_profit = Some ((sig_price s - pos_price p) * real_of_int (pos_shares p)),
                   tr_reason = sig_reason s,
                   tr_cash_after = cash L + real_of_int (pos_shares p) * sig_price s\<rparr>],
               positions := dict_del (positions L) d\<rparr>"] set_dict_del [of "positions L" d]
    by (auto simp: a Let_def)
qed

lemma process_signal_entered_by:
  assumes "process_signal L s = Inr L'" and "entered_by D (positions L)" and "sig_date s \<le> D"
  shows "entered_by D (positions L')"
proof -
  have buy: "entered_by D (positions B)" if "execute_buy L s = Inr B" for B
    using that assms(2,3) set_dict_set [of "positions L" "sig_date s"]
    by (fastforce simp: execute_buy_def Let_def entered_by_def list_all_iff split: if_splits)
  have sell: "entered_by D (positions (sell_positions s (positions L) L))"
    using assms(2) sell_positions_subset by (rule entered_by_subset)
  show ?thesis using assms(1,2) buy sell
    by (auto simp: process_signal_def record_value_def split: if_splits sum.splits)
qed

lemma process_signals_entered_by:
  assumes "process_signals L ss = Inr L'" and "entered_by D (positions L)"
    and "\<forall>s\<in>set ss. sig_date s \<le> D"
  shows "entered_by D (positions L')"
  using assms
proof (induction ss arbitrary: L)
  case Nil
  then show ?case by simp
next
  case (Cons s ss)
  from Cons.prems(1) obtain M where M: "process_signal L s = Inr M" "process_signals M ss = Inr L'"
    by (auto split: sum.splits)
  have "entered_by D (positions M)"
    using process_signal_entered_by [OF M(1) Cons.prems(2)] Cons.prems(3) by simp
  from Cons.IH [OF M(2) this] Cons.prems(3) show ?case by simp
qed

lemma current_value_all:
  "entered_by (sig_date s) (positions L) \<Longrightarrow>
   current_value L s = cash L + (\<Sum>(d, p)\<leftarrow>positions L. real_of_int (pos_shares p) * sig_price s)"
proof -
  assume "entered_by (sig_date s) (positions L)"
  then have "filter (\<lambda>(d, p). d \<le> sig_date s) (positions L) = positions L"
    by (auto simp: entered_by_def list_all_iff intro: filter_True)
  then show ?thesis by (simp add: current_value_def)
qed

lemma process_signal_value:
  assumes "process_signal L s = Inr L'" and "entered_by (sig_date s) (positions L)"
  shows "portfolio_value L' \<noteq> [] \<and>
         pv_value (last (portfolio_value L')) =
           cash L' + (\<Sum>(d, p)\<leftarrow>positions L'. real_of_int (pos_shares p) * sig_price s) \<and>
         pv_cash (last (portfolio_value L')) = cash L'"
proof -
  from assms(1) obtain M where M: "L' = record_value M s"
    and cases: "execute_buy L s = Inr M \<or> M = sell_positions s (positions L) L \<or> M = L"
    by (auto simp: process_signal_def split: if_splits sum.splits)
  have "process_signal L s = Inr (record_value M s)" using assms(1) M by simp
  then have "entered_by (sig_date s) (positions (record_value M s))"
    using assms(2) by (rule process_signal_entered_by) simp
  then have "entered_by (sig_date s) (positions M)" by (simp add: record_value_def)
  from current_value_all [OF this] show ?thesis by (simp add: M record_value_def)
qed

section \<open>Properties of the signal engine\<close>

subsection \<open>Columns of a truncated frame\<close>

lemma take_true_range: "take n (true_range pc bs) = true_range pc (take n bs)"
proof (induction bs arbitrary: pc n)
  case Nil
  then show ?case by simp
next
  case (Cons b bs)
  show ?case
  proof (cases n)
    case 0
    then show ?thesis by simp
  next
    case (Suc m)
    then show ?thesis using Cons.IH by (cases pc) simp_all
  qed
qed

lemma length_true_range [simp]: "length (true_range pc bs) = length bs"
  by (induction pc bs rule: true_range.induct) simp_all

lemma take_ewm_from: "take n (ewm_from \<alpha> y xs) = ewm_from \<alpha> y (take n xs)"
proof (induction xs arbitrary: y n)
  case Nil
  then show ?case by simp
next
  case (Cons x xs)
  then show ?case by (cases n) simp_all
qed

lemma length_ewm_from [simp]: "length (ewm_from \<alpha> y xs) = length xs"
  by (induction xs arbitrary: y) simp_all

lemma ewm_mean_take: "ewm_mean w (take n xs) = map_sum id (take n) (ewm_mean w xs)"
proof (cases xs)
  case Nil
  then show ?thesis by (simp add: ewm_mean_def)
next
  case (Cons x xs')
  then show ?thesis by (cases n) (simp_all add: ewm_mean_def take_ewm_from)
qed

lemma ewm_mean_length: "ewm_mean w xs = Inr ys \<Longrightarrow> length ys = length xs"
  by (auto simp: ewm_mean_def split: if_splits list.splits)

lemma compute_atr_take:
  "compute_atr (take n df) w = map_sum id (take n) (compute_atr df w)"
  by (simp add: compute_atr_def take_true_range [symmetric] ewm_mean_take)

lemma compute_atr_length: "compute_atr df w = Inr atrs \<Longrightarrow> length atrs = length df"
  by (auto simp: compute_atr_def dest: ewm_mean_length)

lemma window_at_take: "i < n \<Longrightarrow> window_at w (take n xs) i = window_at w xs i"
  by (simp add: window_at_def min_def)

lemma length_rolling [simp]: "length (rolling w f xs) = length xs"
  by (simp add: rolling_def)

lemma rolling_nth:
  "i < length xs \<Longrightarrow>
     rolling w f xs ! i = (if w = 0 \<or> Suc i < w then NaN else f (window_at w xs i))"
  by (simp add: rolling_def)

lemma rolling_take: "rolling w f (take n xs) = take n (rolling w f xs)"
  by (rule nth_equalityI) (simp_all add: rolling_nth window_at_take)

lemma calculate_indicators_length:
  "calculate_indicators cfg df = Inr rows \<Longrightarrow> length rows = length df"
  by (auto simp: calculate_indicators_def Let_def split: sum.splits)

lemma calculate_indicators_take:
  "calculate_indicators cfg (take n df) = map_sum id (take n) (calculate_indicators cfg df)"
proof (cases "compute_atr df (atr_window cfg)")
  case (Inl e)
  then show ?thesis by (simp add: calculate_indicators_def compute_atr_take)
next
  case (Inr atrs)
  then have len: "length atrs = length df" by (rule compute_atr_length)
  have pre: "compute_atr (take n df) (atr_window cfg) = Inr (take n atrs)"
    by (simp add: compute_atr_take Inr)
  let ?pcts = "map2 (\<lambda>a c. fdiv (Fin a) (Fin c)) atrs (map bar_close df)"
  have pcts: "map2 (\<lambda>a c. fdiv (Fin a) (Fin c)) (take n atrs) (take n (map bar_close df)) =
      take n ?pcts"
    by (simp only: take_map take_zip)
  have cl: "map bar_close (take n df) = take n (map bar_close df)"
    and hi: "map bar_high (take n df) = take n (map bar_high df)"
    and lo: "map bar_low (take n df) = take n (map bar_low df)"
    by (simp_all only: take_map)
  have rows: "map (\<lambda>i. indicator_row_of cfg (take n df ! i) (take n atrs ! i)
            (take n (rolling (vol_lookback_for_filter cfg) window_median ?pcts) ! i)
            (take n (rolling (fast_ma_window cfg) window_mean (map bar_close df)) ! i)
            (take n (rolling (slow_ma_window cfg) window_mean (map bar_close df)) ! i)
            (take n (rolling (entry_breakout_window cfg) window_max (map bar_high df)) ! i)
            (take n (rolling (exit_break_window cfg) window_min (map bar_low df)) ! i))
          [0..<length (take n df)] =
        take n (map (\<lambda>i. indicator_row_of cfg (df ! i) (atrs ! i)
            (rolling (vol_lookback_for_filter cfg) window_median ?pcts ! i)
            (rolling (fast_ma_window cfg) window_mean (map bar_close df) ! i)
            (rolling (slow_ma_window cfg) window_mean (map bar_close df) ! i)
            (rolling (entry_breakout_window cfg) window_max (map bar_high df) ! i)
            (rolling (exit_break_window cfg) window_min (map bar_low df) ! i))
          [0..<length df])"
    by (rule nth_equalityI) simp_all
  show ?thesis
    by (simp only: calculate_indicators_def Inr pre Let_def sum.case map_sum.simps id_apply
        cl hi lo pcts rolling_take rows)
qed

subsection \<open>Rows and signals\<close>

lemma calculate_indicators_nth:
  assumes "calculate_indicators cfg df = Inr rows" and "i < length df"
  shows "\<exists>atrs med fast slow dhigh dlow.
           compute_atr df (atr_window cfg) = Inr atrs \<and>
           rows ! i = indicator_row_of cfg (df ! i) (atrs ! i) med fast slow dhigh dlow"
  using assms
  apply (clarsimp simp: calculate_indicators_def Let_def split: sum.splits)
  apply (intro exI)
  apply (rule refl)
  done

lemma true_range_nonneg:
  "\<forall>b\<in>set bs. bar_low b \<le> bar_high b \<Longrightarrow> \<forall>x\<in>set (true_range pc bs). 0 \<le> x"
  by (induction pc bs rule: true_range.induct) auto

lemma ewm_from_nonneg:
  "0 \<le> \<alpha> \<Longrightarrow> \<alpha> \<le> 1 \<Longrightarrow> 0 \<le> y \<Longrightarrow> \<forall>x\<in>set xs. 0 \<le> x \<Longrightarrow>
     \<forall>v\<in>set (ewm_from \<alpha> y xs). 0 \<le> v"
proof (induction xs arbitrary: y)
  case Nil
  then show ?case by simp
next
  case (Cons x xs)
  have "0 \<le> (1 - \<alpha>) * y + \<alpha> * x" using Cons.prems by simp
  from Cons.IH [OF Cons.prems(1,2) this] Cons.prems(4) this show ?case by simp
qed

lemma ewm_mean_nonneg:
  assumes "ewm_mean w xs = Inr ys" and "\<forall>x\<in>set xs. 0 \<le> x"
  shows "\<forall>v\<in>set ys. 0 \<le> v"
proof -
  from assms(1) have w: "1 \<le> w" by (auto simp: ewm_mean_def split: if_splits)
  then have a: "0 \<le> 2 / (real w + 1)" "2 / (real w + 1) \<le> 1" by simp_all
  show ?thesis
  proof (cases xs)
    case Nil
    with assms(1) show ?thesis by (auto simp: ewm_mean_def split: if_splits)
  next
    case (Cons x xs')
    with assms(1) w have ys: "ys = x # ewm_from (2 / (real w + 1)) x xs'"
      by (auto simp: ewm_mean_def)
    from assms(2) Cons have x: "0 \<le> x" and xs': "\<forall>v\<in>set xs'. 0 \<le> v" by simp_all
    from ewm_from_nonneg [OF a x xs'] x show ?thesis by (simp add: ys)
  qed
qed

lemma compute_atr_nonneg:
  assumes "compute_atr df w = Inr atrs" and "\<forall>b\<in>set df. bar_low b \<le> bar_high b"
  shows "\<forall>v\<in>set atrs. 0 \<le> v"
proof -
  from assms(1) have "ewm_mean w (true_range None df) = Inr atrs" by (simp add: compute_atr_def)
  from ewm_mean_nonneg [OF this true_range_nonneg [OF assms(2)]] show ?thesis .
qed

lemma indicator_row_of_simps:
  "atr (indicator_row_of cfg b a med fast slow dhigh dlow) = a"
  "bar_close (indicator_row_of cfg b a med fast slow dhigh dlow) = bar_close b"
  "bar_date (indicator_row_of cfg b a med fast slow dhigh dlow) = bar_date b"
  "dynamic_stop_loss (indicator_row_of cfg b a med fast slow dhigh dlow) =
     bar_close b - atr_multiple_stop cfg * a"
  "take_profit_price (indicator_row_of cfg b a med fast slow dhigh dlow) =
     bar_close b + take_profit_multiple cfg * atr_multiple_stop cfg * a"
  "risk_reward_ratio (indicator_row_of cfg b a med fast slow dhigh dlow) =
     fdiv (Fin (take_profit_multiple cfg * atr_multiple_stop cfg * a))
          (Fin (atr_multiple_stop cfg * a))"
  by (simp_all add: indicator_row_of_def Let_def)

lemma initial_signal_row_simps:
  "signal (initial_signal_row row) = HOLD"
  "signal_reason (initial_signal_row row) = NoReason"
  "bar_date (initial_signal_row row) = bar_date row"
  "bar_close (initial_signal_row row) = bar_close row"
  by (simp_all add: initial_signal_row_def indicator_row.defs signal_row.defs bar.defs)

lemma signal_of_row_signal:
  "signal (signal_of_row cfg row) =
     (if ma_condition row \<and> trend_condition row \<and> vol_condition cfg row \<and> risk_reward_ok row
      then BUY
      else if below_stop row \<or> break_low row \<or> above_take_profit row \<or> trend_reversal cfg row
      then SELL
      else if add_condition cfg row then ADD
      else HOLD)"
  by (simp add: signal_of_row_def initial_signal_row_simps)

lemma signal_of_row_reason:
  "signal_reason (signal_of_row cfg row) =
     (if ma_condition row \<and> trend_condition row \<and> vol_condition cfg row \<and> risk_reward_ok row
      then TrendStartBreakout
      else if below_stop row then StopLossHit
      else if break_low row then SupportBroken
      else if above_take_profit row then TakeProfitReached
      else if trend_reversal cfg row then TrendReversal
      else if add_condition cfg row then TrendVolExpansion
      else NoReason)"
  by (simp add: signal_of_row_def initial_signal_row_simps)

lemma signal_of_row_bar:
  "bar_date (signal_of_row cfg row) = bar_date row"
  "bar_close (signal_of_row cfg row) = bar_close row"
  by (simp_all add: signal_of_row_def initial_signal_row_simps)

lemma generate_signals_nth:
  assumes "generate_signals cfg df = Inr out" and "calculate_indicators cfg df = Inr rows"
    and "i < length df"
  shows "length out = length df"
    and "out ! i = (if i < max (slow_ma_window cfg) (vol_lookback_for_filter cfg)
                    then initial_signal_row (rows ! i) else signal_of_row cfg (rows ! i))"
  using assms calculate_indicators_length [OF assms(2)]
  by (auto simp: generate_signals_def)

lemma calculate_indicators_ok:
  "1 \<le> atr_window cfg \<Longrightarrow> \<exists>rows. calculate_indicators cfg df = Inr rows"
  by (simp add: calculate_indicators_def compute_atr_def ewm_mean_def Let_def)

lemma generate_signals_ok:
  "calculate_indicators cfg df = Inr rows \<Longrightarrow> \<exists>out. generate_signals cfg df = Inr out"
  by (simp add: generate_signals_def)

subsection \<open>The week of seven bars\<close>

text \<open>
  The signals of the week: nothing during the look-back of three days, then BUY, BUY, ADD
  and SELL.
\<close>

lemma week_signals:
  "map_sum id (map (\<lambda>row. (bar_date row, signal row, signal_reason row)))
     (generate_signals small_config seven_bars) =
   Inr [(0, HOLD, NoReason), (1, HOLD, NoReason), (2, HOLD, NoReason),
        (3, BUY, TrendStartBreakout), (4, BUY, TrendStartBreakout),
        (5, ADD, TrendVolExpansion), (6, SELL, TrendReversal)]"
  by (simp add: generate_signals_def calculate_indicators_def small_config_def seven_bars_def
      compute_atr_def ewm_mean_def rolling_def window_at_def window_mean_def
      window_median_def median_def window_max_def window_min_def upt_rec
      signal_of_row_signal signal_of_row_reason signal_of_row_bar initial_signal_row_simps
      indicator_row_of_def Let_def ma_condition_def trend_condition_def vol_condition_def
      risk_reward_ok_def below_stop_def break_low_def above_take_profit_def
      trend_reversal_def add_condition_def fsub_def)

lemma week_signals_of:
  "map_sum id signals_of (generate_signals small_config seven_bars) =
   Inr [\<lparr>sig_date = 3, sig_action = BUY, sig_price = 17, sig_reason = TrendStartBreakout,
         sig_strength = 1\<rparr>,
        \<lparr>sig_date = 4, sig_action = BUY, sig_price = 30, sig_reason = TrendStartBreakout,
         sig_strength = 1\<rparr>,
        \<lparr>sig_date = 5, sig_action = ADD, sig_price = 20, sig_reason = TrendVolExpansion,
         sig_strength = 1\<rparr>,
        \<lparr>sig_date = 6, sig_action = SELL, sig_price = 18, sig_reason = TrendReversal,
         sig_strength = 1\<rparr>]"
  by (simp add: generate_signals_def calculate_indicators_def small_config_def seven_bars_def
      compute_atr_def ewm_mean_def rolling_def window_at_def window_mean_def
      window_median_def median_def window_max_def window_min_def upt_rec signals_of_def
      signal_of_row_signal signal_of_row_reason signal_of_row_bar initial_signal_row_simps
      indicator_row_of_def Let_def ma_condition_def trend_condition_def vol_condition_def
      risk_reward_ok_def below_stop_def break_low_def above_take_profit_def
      trend_reversal_def add_condition_def fsub_def)

lemma week_backtest: "backtest_ledger small_config 1000 seven_bars = Inr week_ledger"
proof -
  from week_signals_of obtain rows
    where rows: "generate_signals small_config seven_bars = Inr rows"
      and sigs: "signals_of rows =
        [\<lparr>sig_date = 3, sig_action = BUY, sig_price = 17, sig_reason = TrendStartBreakout,
          sig_strength = 1\<rparr>,
         \<lparr>sig_date = 4, sig_action = BUY, sig_price = 30, sig_reason = TrendStartBreakout,
          sig_strength = 1\<rparr>,
         \<lparr>sig_date = 5, sig_action = ADD, sig_price = 20, sig_reason = TrendVolExpansion,
          sig_strength = 1\<rparr>,
         \<lparr>sig_date = 6, sig_action = SELL, sig_price = 18, sig_reason = TrendReversal,
          sig_strength = 1\<rparr>]"
    by (cases "generate_signals small_config seven_bars") auto
  show ?thesis
    by (simp add: backtest_ledger_def rows sigs week_ledger_def reset_ledger_def
        process_signal_def execute_buy_def py_int_def record_value_def current_value_def
        Let_def)
qed

lemma week_performance:
  "calculate_performance week_ledger =
     Inr (Some \<lparr>total_return = - (31 / 10), max_drawdown = 640 / 71, win_rate = 50,
                total_trades = 4, buy_trades = 2, sell_trades = 2, final_value = 969,
                initial_value = 1000\<rparr>)"
  by (simp add: calculate_performance_def week_ledger_def win_rate_of_def sharpe_check_def
      Let_def)

lemma week_rows:
  obtains rows out where "calculate_indicators small_config seven_bars = Inr rows"
    and "generate_signals small_config seven_bars = Inr out"
proof -
  have "1 \<le> atr_window small_config" by (simp add: small_config_def)
  from calculate_indicators_ok [OF this] obtain rows
    where rows: "calculate_indicators small_config seven_bars = Inr rows" by blast
  from generate_signals_ok [OF rows] obtain out
    where "generate_signals small_config seven_bars = Inr out" by blast
  with rows that show thesis by blast
qed

lemma week_atr:
  "map_sum id (map atr) (calculate_indicators small_config seven_bars) =
     Inr [2, 2, 2, 5 / 2, 31 / 4, 71 / 8, 87 / 16]"
  by (simp add: calculate_indicators_def small_config_def seven_bars_def compute_atr_def
      ewm_mean_def upt_rec indicator_row_of_def Let_def)

lemma week_signal_at:
  assumes "generate_signals small_config seven_bars = Inr out"
  shows "length out = 7"
    and "signal (out ! 3) = BUY" and "signal (out ! 5) = ADD" and "signal (out ! 6) = SELL"
    and "signal_reason (out ! 6) = TrendReversal"
proof -
  from week_signals assms
  have m: "map (\<lambda>row. (bar_date row, signal row, signal_reason row)) out =
      [(0, HOLD, NoReason), (1, HOLD, NoReason), (2, HOLD, NoReason),
       (3, BUY, TrendStartBreakout), (4, BUY, TrendStartBreakout),
       (5, ADD, TrendVolExpansion), (6, SELL, TrendReversal)]"
    by simp
  then have "length (map (\<lambda>row. (bar_date row, signal row, signal_reason row)) out) = 7"
    by simp
  then show len: "length out = 7" by simp
  have nth: "(bar_date (out ! i), signal (out ! i), signal_reason (out ! i)) =
      [(0, HOLD, NoReason), (1, HOLD, NoReason), (2, HOLD, NoReason),
       (3, BUY, TrendStartBreakout), (4, BUY, TrendStartBreakout),
       (5, ADD, TrendVolExpansion), (6, SELL, TrendReversal)] ! i" if "i < 7" for i
    using that len nth_map [of i out "\<lambda>row. (bar_date row, signal row, signal_reason row)"]
    unfolding m by simp
  from nth [of 3] show "signal (out ! 3) = BUY" by simp
  from nth [of 5] show "signal (out ! 5) = ADD" by simp
  from nth [of 6] show "signal (out ! 6) = SELL" "signal_reason (out ! 6) = TrendReversal"
    by simp_all
qed

section \<open>The scenario of a first BUY\<close>

text \<open>
  C1 (as the code has it). From a starting cash of 1,000,000 and no open lot, a BUY with
  strength 1.0 at price 10.00 sizes the position at min(1,000,000 * 0.1 * 1.0, 1,000,000)
  = 100,000, opens one lot of 10,000 shares, logs one BUY trade and leaves a cash balance
  of 900,000: the 100,000 spent are taken off the cash. The snapshot of the day values the
  portfolio at 1,000,000.
\<close>

theorem first_buy_scenario:
  "process_signal (reset_ledger 1000000) buy_at_10 =
     Inr \<lparr>initial_cash = 1000000, cash = 900000,
          positions = [(0, \<lparr>pos_shares = 10000, pos_price = 10, pos_date = 0\<rparr>)],
          trades = [\<lparr>tr_date = 0, tr_action = BUY, tr_price = 10, tr_shares = 10000,
                    tr_profit = None, tr_reason = TrendStartBreakout,
                    tr_cash_after = 900000\<rparr>],
          portfolio_value =
            [\<lparr>pv_date = 0, pv_value = 1000000, pv_cash = 900000, pv_positions = 1\<rparr>]\<rparr>"
  by (simp add: process_signal_def reset_ledger_def buy_at_10_def execute_buy_def py_int_def
      record_value_def current_value_def Let_def)

text \<open>
  C1 as the specification states it ends with a cash balance of 0.00; the ledger does not.
\<close>

theorem first_buy_cash_not_zero:
  "map_sum id cash (process_signal (reset_ledger 1000000) buy_at_10) \<noteq> Inr 0"
  by (simp add: process_signal_def reset_ledger_def buy_at_10_def execute_buy_def py_int_def
      record_value_def current_value_def Let_def)

section \<open>ADD signals in the ledger\<close>

text \<open>
  C2 as the specification states it: an ADD with cash available is executed like a BUY, so
  from a cash of 1,000,000 an ADD at price 10.00 would spend 100,000 on a lot of 10,000
  shares and log a trade. The loop tests the action for BUY and for SELL only: the cash is
  unchanged, no lot is open and no trade is logged.
\<close>

theorem add_signal_not_executed:
  "map_sum id (\<lambda>L. (cash L, positions L, trades L))
     (process_signal (reset_ledger 1000000) add_at_10) = Inr (1000000, [], [])"
  by (simp add: process_signal_def reset_ledger_def add_at_10_def record_value_def)

text \<open>
  C2 (as the code has it). For every signal whose action is ADD, whatever the cash, the
  ledger executes no trade: cash, open lots and trade log stay as they are, and the only
  effect is the snapshot of the day, appended to the portfolio values.
\<close>

theorem add_signal_only_snapshot:
  assumes "sig_action s = ADD"
  shows "process_signal L s =
           Inr (L\<lparr>portfolio_value := portfolio_value L @
                  [\<lparr>pv_date = sig_date s, pv_value = current_value L s, pv_cash = cash L,
                    pv_positions = length (positions L)\<rparr>]\<rparr>)"
  using assms by (simp add: process_signal_def record_value_def)

theorem add_signal_only_snapshot_witness:
  "sig_action add_at_10 = ADD \<and>
   process_signal (reset_ledger 1000000) add_at_10 =
     Inr \<lparr>initial_cash = 1000000, cash = 1000000, positions = [], trades = [],
          portfolio_value =
            [\<lparr>pv_date = 0, pv_value = 1000000, pv_cash = 1000000, pv_positions = 0\<rparr>]\<rparr>"
proof -
  have a: "sig_action add_at_10 = ADD" by (simp add: add_at_10_def)
  from add_signal_only_snapshot [OF a, of "reset_ledger 1000000"] a show ?thesis
    by (simp add: reset_ledger_def add_at_10_def current_value_def)
qed

section \<open>Cash is never negative\<close>

text \<open>
  C3. From a cash that is not negative, every sequence of signals at positive prices (the
  close of a bar is a positive number) is processed without an error, one snapshot per
  signal, and the cash is not negative at the end, in every snapshot and after every
  trade. A BUY spends \<open>shares * price\<close>, which is at most the position size, itself at
  most the cash held (lemma \<open>execute_buy_cash_ok\<close>).
\<close>

theorem cash_never_negative:
  assumes "0 \<le> c" and "\<forall>s\<in>set sigs. 0 < sig_price s"
  shows "\<exists>L. process_signals (reset_ledger c) sigs = Inr L \<and> 0 \<le> cash L \<and>
           length (portfolio_value L) = length sigs \<and>
           (\<forall>pv\<in>set (portfolio_value L). 0 \<le> pv_cash pv) \<and>
           (\<forall>t\<in>set (trades L). 0 \<le> tr_cash_after t)"
proof -
  have "cash_ok (reset_ledger c)"
    using assms(1) by (simp add: cash_ok_def reset_ledger_def lots_positive_def)
  from process_signals_cash_ok [OF this assms(2)]
  obtain L where L: "process_signals (reset_ledger c) sigs = Inr L" "cash_ok L" by blast
  from process_signals_snapshots [OF L(1)] obtain pvs
    where "portfolio_value L = pvs" "map pv_date pvs = map sig_date sigs"
    by (auto simp: reset_ledger_def)
  then have "length (portfolio_value L) = length sigs" by (metis length_map)
  with L show ?thesis by (auto simp: cash_ok_def list_all_iff)
qed

theorem cash_never_negative_witness:
  "(0::real) \<le> 1000 \<and> list_all (\<lambda>s. 0 < sig_price s) [buy_at_10, buy_at_12, sell_at_15] \<and>
   (\<exists>L. process_signals (reset_ledger 1000) [buy_at_10, buy_at_12, sell_at_15] = Inr L \<and>
        0 \<le> cash L \<and> map pv_cash (portfolio_value L) = [900, 816, 1071] \<and>
        map tr_cash_after (trades L) = [900, 816, 966, 1071])"
proof -
  have c: "(0::real) \<le> 1000" by simp
  have p: "\<forall>s\<in>set [buy_at_10, buy_at_12, sell_at_15]. 0 < sig_price s"
    by (simp add: buy_at_10_def buy_at_12_def sell_at_15_def)
  from cash_never_negative [OF c p] obtain L
    where L: "process_signals (reset_ledger 1000) [buy_at_10, buy_at_12, sell_at_15] = Inr L"
      and nn: "0 \<le> cash L" by blast
  from L have "map pv_cash (portfolio_value L) = [900, 816, 1071] \<and>
      map tr_cash_after (trades L) = [900, 816, 966, 1071]"
    by (auto simp: reset_ledger_def buy_at_10_def buy_at_12_def sell_at_15_def
        process_signal_def execute_buy_def py_int_def record_value_def current_value_def
        Let_def)
  with L nn p show ?thesis by (auto simp: list_all_iff)
qed

section \<open>The value of a snapshot\<close>

text \<open>
  C4. Let the signals be processed in date order, \<open>s\<close> be one of them and \<open>L\<close> the ledger
  right after \<open>s\<close>. Then the snapshot recorded for \<open>s\<close>, which is the snapshot of that
  index at the end of the run, carries the date of \<open>s\<close>, the cash of \<open>L\<close>, and as value
  the cash of \<open>L\<close> plus, over all lots open in \<open>L\<close>, the shares times the price of \<open>s\<close>.
\<close>

theorem snapshot_value_identity:
  assumes "sorted (map sig_date (pre @ [s]))"
    and "process_signals (reset_ledger c) (pre @ [s]) = Inr L"
    and "process_signals (reset_ledger c) (pre @ s # post) = Inr Lf"
  shows "length pre < length (portfolio_value Lf) \<and>
         portfolio_value Lf ! length pre = last (portfolio_value L) \<and>
         pv_date (portfolio_value Lf ! length pre) = sig_date s \<and>
         pv_cash (portfolio_value Lf ! length pre) = cash L \<and>
         pv_value (portfolio_value Lf ! length pre) =
           cash L + (\<Sum>(d, p)\<leftarrow>positions L. real_of_int (pos_shares p) * sig_price s)"
proof -
  from assms(2) obtain M where M: "process_signals (reset_ledger c) pre = Inr M"
    "process_signal M s = Inr L"
    by (auto simp: process_signals_append split: sum.splits)
  have "\<forall>x\<in>set pre. sig_date x \<le> sig_date s"
    using assms(1) by (auto simp: sorted_append)
  moreover have "entered_by (sig_date s) (positions (reset_ledger c))"
    by (simp add: entered_by_def reset_ledger_def)
  ultimately have "entered_by (sig_date s) (positions M)"
    using process_signals_entered_by [OF M(1)] by blast
  from process_signal_value [OF M(2) this]
  have val: "portfolio_value L \<noteq> []"
    "pv_value (last (portfolio_value L)) =
           cash L + (\<Sum>(d, p)\<leftarrow>positions L. real_of_int (pos_shares p) * sig_price s)"
    "pv_cash (last (portfolio_value L)) = cash L" by simp_all
  from process_signals_snapshots [OF assms(2)] obtain pvs
    where pvs: "portfolio_value L = pvs" "map pv_date pvs = map sig_date (pre @ [s])"
    by (auto simp: reset_ledger_def)
  then have len: "length (portfolio_value L) = Suc (length pre)"
    by (metis length_map length_append_singleton)
  have "pv_date (last pvs) = sig_date s"
    using pvs val(1) by (metis last_map last_snoc map_is_Nil_conv)
  then have dt: "pv_date (last (portfolio_value L)) = sig_date s" by (simp add: pvs)
  have "process_signals (reset_ledger c) ((pre @ [s]) @ post) = Inr Lf" using assms(3) by simp
  then have "process_signals L post = Inr Lf"
    unfolding process_signals_append [of _ "pre @ [s]"] using assms(2) by simp
  from process_signals_snapshots [OF this] obtain ext
    where ext: "portfolio_value Lf = portfolio_value L @ ext" by blast
  have nth: "portfolio_value Lf ! length pre = last (portfolio_value L)"
    using len val(1) by (simp add: ext nth_append last_conv_nth)
  show ?thesis using len val dt by (simp add: nth) (simp add: ext)
qed

theorem snapshot_value_identity_witness:
  "sorted (map sig_date ([buy_at_10] @ [buy_at_12])) \<and>
   (\<exists>L Lf. process_signals (reset_ledger 1000) ([buy_at_10] @ [buy_at_12]) = Inr L \<and>
      process_signals (reset_ledger 1000) ([buy_at_10] @ buy_at_12 # [sell_at_15]) = Inr Lf \<and>
      map pos_shares (map snd (positions L)) = [10, 7] \<and> cash L = 816 \<and>
      pv_cash (portfolio_value Lf ! length [buy_at_10]) = 816 \<and>
      pv_value (portfolio_value Lf ! length [buy_at_10]) = 1020)"
proof -
  have s: "sorted (map sig_date ([buy_at_10] @ [buy_at_12]))"
    by (simp add: buy_at_10_def buy_at_12_def)
  obtain L where L: "process_signals (reset_ledger 1000) ([buy_at_10] @ [buy_at_12]) = Inr L"
    and pos: "map pos_shares (map snd (positions L)) = [10, 7]" and c: "cash L = 816"
    by (simp add: reset_ledger_def buy_at_10_def buy_at_12_def process_signal_def
        execute_buy_def py_int_def record_value_def current_value_def Let_def)
  obtain Lf
    where Lf: "process_signals (reset_ledger 1000) ([buy_at_10] @ buy_at_12 # [sell_at_15]) =
      Inr Lf"
    by (simp add: reset_ledger_def buy_at_10_def buy_at_12_def sell_at_15_def
        process_signal_def execute_buy_def py_int_def record_value_def current_value_def
        Let_def)
  have sum: "(\<Sum>(d, p)\<leftarrow>positions L. real_of_int (pos_shares p) * sig_price buy_at_12) = 204"
    using L
    by (auto simp: reset_ledger_def buy_at_10_def buy_at_12_def process_signal_def
        execute_buy_def py_int_def record_value_def current_value_def Let_def)
  from snapshot_value_identity [OF s L Lf]
  have a: "pv_cash (portfolio_value Lf ! length [buy_at_10]) = cash L"
    and b: "pv_value (portfolio_value Lf ! length [buy_at_10]) =
      cash L + (\<Sum>(d, p)\<leftarrow>positions L. real_of_int (pos_shares p) * sig_price buy_at_12)"
    by blast+
  have v: "pv_cash (portfolio_value Lf ! length [buy_at_10]) = 816"
    "pv_value (portfolio_value Lf ! length [buy_at_10]) = 1020"
    unfolding a b c sum by simp_all
  have body: "process_signals (reset_ledger 1000) ([buy_at_10] @ [buy_at_12]) = Inr L \<and>
      process_signals (reset_ledger 1000) ([buy_at_10] @ buy_at_12 # [sell_at_15]) = Inr Lf \<and>
      map pos_shares (map snd (positions L)) = [10, 7] \<and> cash L = 816 \<and>
      pv_cash (portfolio_value Lf ! length [buy_at_10]) = 816 \<and>
      pv_value (portfolio_value Lf ! length [buy_at_10]) = 1020"
    by (intro conjI) (fact L Lf pos c v)+
  have "\<exists>L Lf. process_signals (reset_ledger 1000) ([buy_at_10] @ [buy_at_12]) = Inr L \<and>
      process_signals (reset_ledger 1000) ([buy_at_10] @ buy_at_12 # [sell_at_15]) = Inr Lf \<and>
      map pos_shares (map snd (positions L)) = [10, 7] \<and> cash L = 816 \<and>
      pv_cash (portfolio_value Lf ! length [buy_at_10]) = 816 \<and>
      pv_value (portfolio_value Lf ! length [buy_at_10]) = 1020"
    by (rule exI [of _ L], rule exI [of _ Lf]) (rule body)
  with s show ?thesis by (rule conjI)
qed

section \<open>One action per day\<close>

text \<open>
  C5. The frame of signals has one row per bar, on the bar's date, and each row carries one
  action. A day whose index is below \<open>max(slow_ma_window, vol_lookback_for_filter)\<close> is
  HOLD. On a later day the action is BUY when the four buy conditions hold; otherwise SELL
  when one of the four sell conditions holds; otherwise ADD when the add condition holds;
  otherwise HOLD.
\<close>

theorem one_action_per_day:
  assumes "generate_signals cfg df = Inr out" and "calculate_indicators cfg df = Inr rows"
    and "i < length df"
  shows "length out = length df \<and> bar_date (out ! i) = bar_date (df ! i) \<and>
         signal (out ! i) =
           (if i < max (slow_ma_window cfg) (vol_lookback_for_filter cfg) then HOLD
            else if ma_condition (rows ! i) \<and> trend_condition (rows ! i) \<and>
                    vol_condition cfg (rows ! i) \<and> risk_reward_ok (rows ! i) then BUY
            else if below_stop (rows ! i) \<or> break_low (rows ! i) \<or>
                    above_take_profit (rows ! i) \<or> trend_reversal cfg (rows ! i) then SELL
            else if add_condition cfg (rows ! i) then ADD
            else HOLD)"
proof -
  from calculate_indicators_nth [OF assms(2,3)] obtain atrs med fast slow dhigh dlow
    where "rows ! i = indicator_row_of cfg (df ! i) (atrs ! i) med fast slow dhigh dlow"
    by blast
  then have "bar_date (rows ! i) = bar_date (df ! i)" by (simp add: indicator_row_of_simps)
  then show ?thesis
    using generate_signals_nth [OF assms]
    by (simp add: signal_of_row_signal initial_signal_row_simps signal_of_row_bar)
qed

theorem one_action_per_day_witness:
  "\<exists>out rows. generate_signals small_config seven_bars = Inr out \<and>
     calculate_indicators small_config seven_bars = Inr rows \<and> (5::nat) < length seven_bars \<and>
     length out = length seven_bars \<and> bar_date (out ! 5) = bar_date (seven_bars ! 5) \<and>
     signal (out ! 5) = ADD \<and>
     ADD =
       (if 5 < max (slow_ma_window small_config) (vol_lookback_for_filter small_config) then HOLD
        else if ma_condition (rows ! 5) \<and> trend_condition (rows ! 5) \<and>
                vol_condition small_config (rows ! 5) \<and> risk_reward_ok (rows ! 5) then BUY
        else if below_stop (rows ! 5) \<or> break_low (rows ! 5) \<or>
                above_take_profit (rows ! 5) \<or> trend_reversal small_config (rows ! 5) then SELL
        else if add_condition small_config (rows ! 5) then ADD
        else HOLD)"
proof -
  obtain rows out where rows: "calculate_indicators small_config seven_bars = Inr rows"
    and out: "generate_signals small_config seven_bars = Inr out" by (rule week_rows)
  have i: "(5::nat) < length seven_bars" by (simp add: seven_bars_def)
  note inst = one_action_per_day [OF out rows i]
  have add: "signal (out ! 5) = ADD" using out by (rule week_signal_at)
  have body: "generate_signals small_config seven_bars = Inr out \<and>
     calculate_indicators small_config seven_bars = Inr rows \<and> (5::nat) < length seven_bars \<and>
     length out = length seven_bars \<and> bar_date (out ! 5) = bar_date (seven_bars ! 5) \<and>
     signal (out ! 5) = ADD \<and>
     ADD =
       (if 5 < max (slow_ma_window small_config) (vol_lookback_for_filter small_config) then HOLD
        else if ma_condition (rows ! 5) \<and> trend_condition (rows ! 5) \<and>
                vol_condition small_config (rows ! 5) \<and> risk_reward_ok (rows ! 5) then BUY
        else if below_stop (rows ! 5) \<or> break_low (rows ! 5) \<or>
                above_take_profit (rows ! 5) \<or> trend_reversal small_config (rows ! 5) then SELL
        else if add_condition small_config (rows ! 5) then ADD
        else HOLD)"
    using inst out rows i add by (simp only: simp_thms)
  show ?thesis by (rule exI [of _ out], rule exI [of _ rows]) (rule body)
qed

section \<open>When a snapshot is recorded\<close>

text \<open>
  C6 as the specification states it: a day without an executed trade leaves no snapshot.
  In the week of seven bars, day 5 carries an ADD signal: no trade is logged on that day
  (the trades are on days 3, 4 and 6), yet the ledger records a snapshot for it.
\<close>

theorem snapshot_without_trade:
  "map_sum id (\<lambda>L. (map pv_date (portfolio_value L), map tr_date (trades L)))
     (backtest_ledger small_config 1000 seven_bars) = Inr ([3, 4, 5, 6], [3, 4, 6, 6])"
  by (simp add: week_backtest week_ledger_def)

text \<open>
  C6 (as the code has it). A snapshot is recorded for a day if and only if the signal of
  that day is not HOLD, whether or not a trade was executed on it: the dates of the
  snapshots are, in order, the dates of the rows whose signal is BUY, SELL or ADD.
\<close>

theorem snapshot_per_signal_day:
  assumes "generate_signals cfg df = Inr out" and "backtest_ledger cfg c df = Inr L"
  shows "map pv_date (portfolio_value L) = map bar_date (filter (\<lambda>row. signal row \<noteq> HOLD) out)"
proof -
  from assms have "process_signals (reset_ledger c) (signals_of out) = Inr L"
    by (simp add: backtest_ledger_def)
  from process_signals_snapshots [OF this]
  have "map pv_date (portfolio_value L) = map sig_date (signals_of out)"
    by (auto simp: reset_ledger_def)
  then show ?thesis by (simp add: signals_of_def comp_def)
qed

theorem snapshot_per_signal_day_witness:
  "\<exists>out. generate_signals small_config seven_bars = Inr out \<and>
     backtest_ledger small_config 1000 seven_bars = Inr week_ledger \<and>
     map pv_date (portfolio_value week_ledger) =
       map bar_date (filter (\<lambda>row. signal row \<noteq> HOLD) out) \<and>
     map pv_date (portfolio_value week_ledger) = [3, 4, 5, 6]"
proof -
  obtain rows out where out: "generate_signals small_config seven_bars = Inr out"
    by (rule week_rows)
  have body: "generate_signals small_config seven_bars = Inr out \<and>
     backtest_ledger small_config 1000 seven_bars = Inr week_ledger \<and>
     map pv_date (portfolio_value week_ledger) =
       map bar_date (filter (\<lambda>row. signal row \<noteq> HOLD) out) \<and>
     map pv_date (portfolio_value week_ledger) = [3, 4, 5, 6]"
  proof (intro conjI)
    show "map pv_date (portfolio_value week_ledger) =
        map bar_date (filter (\<lambda>row. signal row \<noteq> HOLD) out)"
      using out week_backtest by (rule snapshot_per_signal_day)
    show "map pv_date (portfolio_value week_ledger) = [3, 4, 5, 6]"
      by (simp add: week_ledger_def)
  qed (rule out week_backtest)+
  show ?thesis by (rule exI [of _ out]) (rule body)
qed

section \<open>The win rate\<close>

text \<open>
  C7 as the specification states it: the win rate is the number of profitable sells over
  the number of sells. The back-test of the week ends with two SELL trades, one of them
  with a positive profit, which makes 1/2; the reported win rate is 50.
\<close>

theorem win_rate_is_not_a_ratio:
  "map tr_profit (filter (\<lambda>t. tr_action t = SELL) (trades week_ledger)) = [Some 5, Some (- 36)] \<and>
   map_sum id (map_option win_rate) (backtest_strategy small_config 1000 seven_bars) =
     Inr (Some 50)"
  by (simp add: backtest_strategy_def week_backtest week_performance) (simp add: week_ledger_def)

text \<open>
  C7 (as the code has it). Whenever \<^verbatim>\<open>backtest_strategy\<close> reports a performance, its win
  rate is a percentage: 100 times the number of SELL trades with a positive realised
  profit, over the number of SELL trades, and 0 when there is no SELL trade.
\<close>

theorem win_rate_percentage:
  assumes "backtest_ledger cfg c df = Inr L"
    and "backtest_strategy cfg c df = Inr (Some perf)"
  shows "sell_trades perf = length (filter (\<lambda>t. tr_action t = SELL) (trades L)) \<and>
         win_rate perf =
           (if sell_trades perf = 0 then 0
            else 100 *
              real (length (filter (\<lambda>t. tr_action t = SELL \<and>
                       (case tr_profit t of None \<Rightarrow> False | Some p \<Rightarrow> 0 < p)) (trades L))) /
              real (sell_trades perf))"
proof -
  from assms have perf: "calculate_performance L = Inr (Some perf)"
    by (simp add: backtest_strategy_def)
  then have s: "sell_trades perf = length (filter (\<lambda>t. tr_action t = SELL) (trades L))"
    and w: "win_rate perf = win_rate_of (trades L)"
    by (auto simp: calculate_performance_def split: if_splits sum.splits)
  have pos: "(0 < (case tr_profit t of None \<Rightarrow> 0 | Some p \<Rightarrow> p)) =
      (case tr_profit t of None \<Rightarrow> False | Some p \<Rightarrow> 0 < p)" for t :: trade
    by (cases "tr_profit t") simp_all
  have f: "filter (\<lambda>t. 0 < (case tr_profit t of None \<Rightarrow> 0 | Some p \<Rightarrow> p))
        (filter (\<lambda>t. tr_action t = SELL) (trades L)) =
      filter (\<lambda>t. tr_action t = SELL \<and>
        (case tr_profit t of None \<Rightarrow> False | Some p \<Rightarrow> 0 < p)) (trades L)"
    by (simp add: pos)
  show ?thesis
    unfolding w win_rate_of_def Let_def f s by simp
qed

theorem win_rate_percentage_witness:
  "backtest_ledger small_config 1000 seven_bars = Inr week_ledger \<and>
   (\<exists>perf. backtest_strategy small_config 1000 seven_bars = Inr (Some perf) \<and>
      sell_trades perf = 2 \<and> win_rate perf = 50 \<and>
      length (filter (\<lambda>t. tr_action t = SELL \<and>
        (case tr_profit t of None \<Rightarrow> False | Some p \<Rightarrow> 0 < p)) (trades week_ledger)) = 1)"
proof -
  let ?perf = "\<lparr>total_return = - (31 / 10), max_drawdown = 640 / 71, win_rate = 50,
                total_trades = 4, buy_trades = 2, sell_trades = 2, final_value = 969,
                initial_value = 1000\<rparr>"
  have p: "backtest_strategy small_config 1000 seven_bars = Inr (Some ?perf)"
    by (simp add: backtest_strategy_def week_backtest week_performance)
  define N where "N = length (filter (\<lambda>t. tr_action t = SELL \<and>
        (case tr_profit t of None \<Rightarrow> False | Some p \<Rightarrow> 0 < p)) (trades week_ledger))"
  from win_rate_percentage [OF week_backtest p]
  have "win_rate ?perf =
      (if sell_trades ?perf = 0 then 0 else 100 * real N / real (sell_trades ?perf))"
    unfolding N_def by (rule conjunct2)
  then have "(50::real) = 100 * real N / 2" by simp
  then have n: "N = 1" by simp
  have body: "backtest_strategy small_config 1000 seven_bars = Inr (Some ?perf) \<and>
      sell_trades ?perf = 2 \<and> win_rate ?perf = 50 \<and> N = 1"
    using p n by simp
  have "\<exists>perf. backtest_strategy small_config 1000 seven_bars = Inr (Some perf) \<and>
      sell_trades perf = 2 \<and> win_rate perf = 50 \<and> N = 1"
    by (rule exI [of _ ?perf]) (rule body)
  with week_backtest show ?thesis unfolding N_def by (rule conjI)
qed

section \<open>No look-ahead\<close>

text \<open>
  C8. Cut the frame after its first \<open>n\<close> bars. Every row \<open>t < n\<close> of the indicator frame
  of the cut input is the row \<open>t\<close> of the indicator frame of the whole input: the ATR, the
  ATR percentage, its rolling median and their ratio, the volatility regime, both moving
  averages, both Donchian bounds, the trend strength and state, and the risk columns are
  all fields of that row.
\<close>

theorem no_lookahead:
  assumes "calculate_indicators cfg df = Inr rows" and "t < n" and "n \<le> length df"
  shows "\<exists>rows'. calculate_indicators cfg (take n df) = Inr rows' \<and> length rows' = n \<and>
           rows' ! t = rows ! t"
  using assms calculate_indicators_length [OF assms(1)]
  by (simp add: calculate_indicators_take)

theorem no_lookahead_witness:
  "\<exists>rows. calculate_indicators small_config seven_bars = Inr rows \<and> (3::nat) < 4 \<and>
     4 \<le> length seven_bars \<and>
     (\<exists>rows'. calculate_indicators small_config (take 4 seven_bars) = Inr rows' \<and>
        length rows' = 4 \<and> rows' ! 3 = rows ! 3 \<and> atr (rows' ! 3) = 5 / 2)"
proof -
  obtain rows out where rows: "calculate_indicators small_config seven_bars = Inr rows"
    by (rule week_rows)
  have t: "(3::nat) < 4" by simp
  have n: "4 \<le> length seven_bars" by (simp add: seven_bars_def)
  from no_lookahead [OF rows t n] obtain rows'
    where rows': "calculate_indicators small_config (take 4 seven_bars) = Inr rows'"
      and len: "length rows' = 4" and eq: "rows' ! 3 = rows ! 3" by blast
  from week_atr rows have "map atr rows = [2, 2, 2, 5 / 2, 31 / 4, 71 / 8, 87 / 16]" by simp
  then have "map atr rows ! 3 = 5 / 2" by simp
  moreover have "length rows = 7"
    using calculate_indicators_length [OF rows] by (simp add: seven_bars_def)
  ultimately have a: "atr (rows ! 3) = 5 / 2" by simp
  have inner: "calculate_indicators small_config (take 4 seven_bars) = Inr rows' \<and>
        length rows' = 4 \<and> rows' ! 3 = rows ! 3 \<and> atr (rows' ! 3) = 5 / 2"
    using rows' len eq a by (simp only: simp_thms)
  have ex: "\<exists>rows'. calculate_indicators small_config (take 4 seven_bars) = Inr rows' \<and>
        length rows' = 4 \<and> rows' ! 3 = rows ! 3 \<and> atr (rows' ! 3) = 5 / 2"
    by (rule exI [of _ rows']) (rule inner)
  have body: "calculate_indicators small_config seven_bars = Inr rows \<and> (3::nat) < 4 \<and>
     4 \<le> length seven_bars \<and>
     (\<exists>rows'. calculate_indicators small_config (take 4 seven_bars) = Inr rows' \<and>
        length rows' = 4 \<and> rows' ! 3 = rows ! 3 \<and> atr (rows' ! 3) = 5 / 2)"
    by (intro conjI) (rule rows t n ex)+
  show ?thesis by (rule exI [of _ rows]) (rule body)
qed

section \<open>Stop-loss and take-profit never sell\<close>

text \<open>
  C9. Let every bar have its low at or below its high, and let the stop multiple and the
  take-profit multiple not be negative (they are 3.0 and 2.0). Then on every row the ATR is
  not negative, the close is neither below the dynamic stop-loss nor above the take-profit
  price, both computed from that same close, so no signal carries the stop-loss or the
  take-profit reason, and a SELL is a break of the Donchian low or a trend reversal.
\<close>

theorem no_stop_or_target_sell:
  assumes "\<forall>b\<in>set df. bar_low b \<le> bar_high b"
    and "0 \<le> atr_multiple_stop cfg" and "0 \<le> take_profit_multiple cfg"
    and "generate_signals cfg df = Inr out" and "calculate_indicators cfg df = Inr rows"
    and "i < length df"
  shows "0 \<le> atr (rows ! i) \<and> \<not> below_stop (rows ! i) \<and> \<not> above_take_profit (rows ! i) \<and>
         signal_reason (out ! i) \<noteq> StopLossHit \<and>
         signal_reason (out ! i) \<noteq> TakeProfitReached \<and>
         (signal (out ! i) = SELL \<longrightarrow> break_low (rows ! i) \<or> trend_reversal cfg (rows ! i))"
proof -
  from calculate_indicators_nth [OF assms(5,6)] obtain atrs med fast slow dhigh dlow
    where atrs: "compute_atr df (atr_window cfg) = Inr atrs"
      and row: "rows ! i = indicator_row_of cfg (df ! i) (atrs ! i) med fast slow dhigh dlow"
    by blast
  have "atrs ! i \<in> set atrs" using compute_atr_length [OF atrs] assms(6) by simp
  with compute_atr_nonneg [OF atrs assms(1)] have a: "0 \<le> atrs ! i" by blast
  then have a': "0 \<le> atr (rows ! i)" by (simp add: row indicator_row_of_simps)
  have m: "0 \<le> atr_multiple_stop cfg * (atrs ! i)" using a assms(2) by simp
  from assms(3) m have "0 \<le> take_profit_multiple cfg * (atr_multiple_stop cfg * (atrs ! i))"
    by (rule mult_nonneg_nonneg)
  then have t: "0 \<le> take_profit_multiple cfg * atr_multiple_stop cfg * (atrs ! i)"
    by (simp add: mult.assoc)
  have bs: "\<not> below_stop (rows ! i)"
    using m by (simp add: below_stop_def row indicator_row_of_simps)
  have tp: "\<not> above_take_profit (rows ! i)"
    using t by (simp add: above_take_profit_def row indicator_row_of_simps)
  show ?thesis
    using a' bs tp generate_signals_nth [OF assms(4,5,6)]
    by (simp add: signal_of_row_signal signal_of_row_reason initial_signal_row_simps)
qed

theorem no_stop_or_target_sell_witness:
  "list_all (\<lambda>b. bar_low b \<le> bar_high b) seven_bars \<and> 0 \<le> atr_multiple_stop small_config \<and>
   0 \<le> take_profit_multiple small_config \<and>
   (\<exists>out rows. generate_signals small_config seven_bars = Inr out \<and>
      calculate_indicators small_config seven_bars = Inr rows \<and> (6::nat) < length seven_bars \<and>
      0 \<le> atr (rows ! 6) \<and> \<not> below_stop (rows ! 6) \<and> \<not> above_take_profit (rows ! 6) \<and>
      signal (out ! 6) = SELL \<and> signal_reason (out ! 6) = TrendReversal \<and>
      (break_low (rows ! 6) \<or> trend_reversal small_config (rows ! 6)))"
proof -
  obtain rows out where rows: "calculate_indicators small_config seven_bars = Inr rows"
    and out: "generate_signals small_config seven_bars = Inr out" by (rule week_rows)
  have bars: "\<forall>b\<in>set seven_bars. bar_low b \<le> bar_high b" by (simp add: seven_bars_def)
  have ams: "0 \<le> atr_multiple_stop small_config"
    and tpm: "0 \<le> take_profit_multiple small_config" by (simp_all add: small_config_def)
  have i: "(6::nat) < length seven_bars" by (simp add: seven_bars_def)
  have sell: "signal (out ! 6) = SELL" and why: "signal_reason (out ! 6) = TrendReversal"
    using out by (rule week_signal_at)+
  from no_stop_or_target_sell [OF bars ams tpm out rows i] sell
  have c: "0 \<le> atr (rows ! 6)" "\<not> below_stop (rows ! 6)" "\<not> above_take_profit (rows ! 6)"
    "break_low (rows ! 6) \<or> trend_reversal small_config (rows ! 6)"
    by simp_all
  have body: "generate_signals small_config seven_bars = Inr out \<and>
      calculate_indicators small_config seven_bars = Inr rows \<and> (6::nat) < length seven_bars \<and>
      0 \<le> atr (rows ! 6) \<and> \<not> below_stop (rows ! 6) \<and> \<not> above_take_profit (rows ! 6) \<and>
      signal (out ! 6) = SELL \<and> signal_reason (out ! 6) = TrendReversal \<and>
      (break_low (rows ! 6) \<or> trend_reversal small_config (rows ! 6))"
    by (intro conjI) (rule out rows i c sell why)+
  have ex: "\<exists>out rows. generate_signals small_config seven_bars = Inr out \<and>
      calculate_indicators small_config seven_bars = Inr rows \<and> (6::nat) < length seven_bars \<and>
      0 \<le> atr (rows ! 6) \<and> \<not> below_stop (rows ! 6) \<and> \<not> above_take_profit (rows ! 6) \<and>
      signal (out ! 6) = SELL \<and> signal_reason (out ! 6) = TrendReversal \<and>
      (break_low (rows ! 6) \<or> trend_reversal small_config (rows ! 6))"
    by (rule exI [of _ out], rule exI [of _ rows]) (rule body)
  have l: "list_all (\<lambda>b. bar_low b \<le> bar_high b) seven_bars"
    using bars by (simp add: list_all_iff)
  show ?thesis by (intro conjI) (rule l ams tpm ex)+
qed

section \<open>The risk-reward ratio is the take-profit multiple\<close>



end
